theory Spec2Isabelle
  imports Complex_Main
begin

section \<open>Values, errors and string primitives\<close>

text \<open>
  A spreadsheet cell as the scoring functions see it: a missing value (\<open>NaN\<close>, for which
  \<open>pd.isna\<close> is true), a number, or a text. Numbers are exact rationals: every constant
  the code compares against (759, 1518, 2277, 10000, ...) is exactly representable, and
  the claims are about threshold bands, not about rounding.
  Texts are lists of characters read as code points below 256.
\<close>

datatype cell = NaN | Num rat | Str string

text \<open>
  The exceptions the code can raise. \<open>ValueError\<close> carries the offending row numbers
  that \<open>carregar_dados\<close> lists in its message; \<open>LengthError k n\<close> is the
  \<open>ValueError\<close> of pandas for a column of \<open>k\<close> values assigned to a frame of
  \<open>n\<close> rows.
\<close>

datatype error =
    KeyError string
  | TypeError
  | ValueError "nat list"
  | LengthError nat nat
  | AttributeError
  | FileNotFoundError
  | RuntimeError

definition bind_err :: "error + 'a \<Rightarrow> ('a \<Rightarrow> error + 'b) \<Rightarrow> error + 'b" where
  "bind_err m f = (case m of Inl e \<Rightarrow> Inl e | Inr x \<Rightarrow> f x)"

definition isna :: "cell \<Rightarrow> bool" where
  "isna v = (case v of NaN \<Rightarrow> True | _ \<Rightarrow> False)"

definition isinstance_str :: "cell \<Rightarrow> bool" where
  "isinstance_str v = (case v of Str _ \<Rightarrow> True | _ \<Rightarrow> False)"

text \<open>\<open>v == 0\<close> in Python: true for the number zero only, false (never raising) for a text.\<close>

definition eq_zero :: "cell \<Rightarrow> bool" where
  "eq_zero v = (case v of Num x \<Rightarrow> x = 0 | _ \<Rightarrow> False)"

text \<open>\<open>str.isspace\<close>, \<open>str.strip\<close>, \<open>str.lower\<close> and the substring test \<open>a in b\<close>.\<close>

definition py_isspace :: "char \<Rightarrow> bool" where
  "py_isspace c =
     (let k = (of_char c :: nat)
      in (9 \<le> k \<and> k \<le> 13) \<or> (28 \<le> k \<and> k \<le> 32) \<or> k = 133 \<or> k = 160)"

definition py_strip :: "string \<Rightarrow> string" where
  "py_strip s = rev (dropWhile py_isspace (rev (dropWhile py_isspace s)))"

definition lower_char :: "char \<Rightarrow> char" where
  "lower_char c =
     (let k = (of_char c :: nat)
      in if (65 \<le> k \<and> k \<le> 90) \<or> (192 \<le> k \<and> k \<le> 222 \<and> k \<noteq> 215)
         then char_of (k + 32) else c)"

definition py_lower :: "string \<Rightarrow> string" where
  "py_lower s = map lower_char s"

fun starts_with :: "string \<Rightarrow> string \<Rightarrow> bool" where
  "starts_with [] hay = True"
| "starts_with (c # cs) [] = False"
| "starts_with (c # cs) (d # ds) = (c = d \<and> starts_with cs ds)"

fun py_in :: "string \<Rightarrow> string \<Rightarrow> bool" where
  "py_in needle [] = (needle = [])"
| "py_in needle (d # ds) = (starts_with needle (d # ds) \<or> py_in needle ds)"

section \<open>Fast Greedy variant: scoring (Fastgreedy.py)\<close>

definition SALARIO_MINIMO :: rat where
  "SALARIO_MINIMO = 1518"

definition pontos_renda :: "cell \<Rightarrow> error + int" where
  "pontos_renda r =
     (case r of
        NaN \<Rightarrow> Inr 0
      | Str _ \<Rightarrow> Inl TypeError
      | Num x \<Rightarrow>
          if x < (1 / 2) * SALARIO_MINIMO then Inr 40
          else if x < 1 * SALARIO_MINIMO then Inr 30
          else if x \<le> (3 / 2) * SALARIO_MINIMO then Inr 20
          else Inr 0)"

definition pontos_moradia :: "cell \<Rightarrow> int" where
  "pontos_moradia m =
     (case m of
        Str s \<Rightarrow>
          (let m_lower = py_lower (py_strip s)
           in if py_in ''alugada'' m_lower then 15
              else if py_in ''pagamento'' m_lower then 12
              else if py_in ''quitada'' m_lower then 5
              else if py_in (''heran'' @ [CHR 0xE7] @ ''a'') m_lower
                      \<or> py_in ''heranca'' m_lower then 2
              else 0)
      | _ \<Rightarrow> 0)"

definition pontos_despesas :: "cell \<Rightarrow> cell \<Rightarrow> error + int" where
  "pontos_despesas dp rp =
     (if isna dp \<or> isna rp \<or> eq_zero rp then Inr 10
      else case (dp, rp) of
        (Num d, Num r) \<Rightarrow>
          (let rel = d / r
           in if rel > 2 then Inr 10
              else if rel > 3 / 2 then Inr 7
              else if rel > 1 then Inr 4
              else Inr 0)
      | _ \<Rightarrow> Inl TypeError)"

definition pontos_bens :: "cell \<Rightarrow> error + int" where
  "pontos_bens v =
     (case v of
        NaN \<Rightarrow> Inr 0
      | Str _ \<Rightarrow> Inl TypeError
      | Num x \<Rightarrow>
          if x = 0 then Inr 15
          else if x < 10000 then Inr 10
          else if x < 100000 then Inr 5
          else Inr 0)"

section \<open>Data frames\<close>

text \<open>
  A data frame is a list of column labels and a list of rows, each row holding one cell
  per column. A row handed to a function by \<open>df.apply(..., axis=1)\<close> is a series: the
  labels paired with the row's cells. A label is looked up at its first occurrence
  (\<open>read_excel\<close> itself makes the labels of a sheet distinct; where the second variant
  renames the headers and two of them become equal, its loader raises, see \<open>converter\<close>).
\<close>

record dataframe =
  columns :: "string list"
  rows :: "cell list list"

type_synonym series = "(string \<times> cell) list"

text \<open>A frame of pandas is rectangular: every row has one cell per column.\<close>

definition wf_dataframe :: "dataframe \<Rightarrow> bool" where
  "wf_dataframe df = list_all (\<lambda>r. length r = length (columns df)) (rows df)"

definition as_series :: "dataframe \<Rightarrow> cell list \<Rightarrow> series" where
  "as_series df r = zip (columns df) r"

text \<open>\<open>row[k]\<close> raises \<open>KeyError\<close> on an absent label; \<open>row.get(k, d)\<close> returns \<open>d\<close>.\<close>

definition getitem :: "series \<Rightarrow> string \<Rightarrow> error + cell" where
  "getitem row k = (case map_of row k of None \<Rightarrow> Inl (KeyError k) | Some v \<Rightarrow> Inr v)"

definition get_default :: "series \<Rightarrow> string \<Rightarrow> cell \<Rightarrow> cell" where
  "get_default row k d = (case map_of row k of None \<Rightarrow> d | Some v \<Rightarrow> v)"

fun first_index :: "string \<Rightarrow> string list \<Rightarrow> nat" where
  "first_index x [] = 0"
| "first_index x (y # ys) = (if x = y then 0 else Suc (first_index x ys))"

text \<open>The cell of row \<open>r\<close> under label \<open>c\<close> (used once \<open>c\<close> is known to be a column).\<close>

definition cell_at :: "string list \<Rightarrow> cell list \<Rightarrow> string \<Rightarrow> cell" where
  "cell_at cols r c = get_default (zip cols r) c NaN"

text \<open>\<open>df[name] = vals\<close>: replaces the column when the label exists, appends it otherwise;
  pandas refuses a list whose length is not the number of rows.\<close>

definition assign_column :: "dataframe \<Rightarrow> string \<Rightarrow> cell list \<Rightarrow> error + dataframe" where
  "assign_column df name vals =
     (if length vals \<noteq> length (rows df)
      then Inl (LengthError (length vals) (length (rows df)))
      else if name \<in> set (columns df)
      then Inr (df\<lparr>rows := map2 (\<lambda>r v. r[first_index name (columns df) := v]) (rows df) vals\<rparr>)
      else Inr (df\<lparr>columns := columns df @ [name],
                   rows := map2 (\<lambda>r v. r @ [v]) (rows df) vals\<rparr>))"

text \<open>\<open>df.drop(columns=[name])\<close> raises \<open>KeyError\<close> when the label is absent.\<close>

definition drop_nth :: "nat \<Rightarrow> 'a list \<Rightarrow> 'a list" where
  "drop_nth k xs = take k xs @ drop (Suc k) xs"

definition drop_column :: "dataframe \<Rightarrow> string \<Rightarrow> error + dataframe" where
  "drop_column df name =
     (if name \<in> set (columns df)
      then (let k = first_index name (columns df)
            in Inr (df\<lparr>columns := drop_nth k (columns df), rows := map (drop_nth k) (rows df)\<rparr>))
      else Inl (KeyError name))"

text \<open>\<open>df.apply(f, axis=1)\<close>: the first row on which \<open>f\<close> raises aborts the whole call.\<close>

fun apply_rows :: "(series \<Rightarrow> error + 'a) \<Rightarrow> series list \<Rightarrow> error + 'a list" where
  "apply_rows f [] = Inr []"
| "apply_rows f (r # rs) =
     bind_err (f r) (\<lambda>x. bind_err (apply_rows f rs) (\<lambda>xs. Inr (x # xs)))"

section \<open>Fast Greedy variant: vulnerability index (Fastgreedy.py)\<close>

text \<open>The column labels, with the accented letters (c cedilla, a tilde,
  e circumflex, e acute) written by their code points.\<close>

definition COL_MORADIA :: string where
  "COL_MORADIA = ''Qual a situa'' @ [CHR 0xE7, CHR 0xE3] @ ''o da MORADIA DO GRUPO FAMILIAR?''"

definition COL_TRANSPORTE :: string where
  "COL_TRANSPORTE = ''Qual o principal meio de transporte que voc'' @ [CHR 0xEA]
     @ '' utiliza para vir at'' @ [CHR 0xE9] @ '' a Universidade?''"

definition COL_RENDA :: string where
  "COL_RENDA = ''Renda per capita''"

definition COL_DESPESAS :: string where
  "COL_DESPESAS = ''Despesas per capita''"

definition COL_BENS :: string where
  "COL_BENS = ''Valor Total dos bens familiares''"

definition COL_INDICE :: string where
  "COL_INDICE = ''Indice Vulnerabilidade''"

definition COL_GRUPO :: string where
  "COL_GRUPO = ''Grupo FastGreedy''"

text \<open>The function applied to each row by \<open>calcular_indice_vulnerabilidade\<close>; the
  operands are evaluated left to right, so the first one that raises decides the error.\<close>

definition indice_linha :: "series \<Rightarrow> error + int" where
  "indice_linha row =
     bind_err (getitem row COL_RENDA) (\<lambda>r.
     bind_err (pontos_renda r) (\<lambda>p1.
     bind_err (getitem row COL_MORADIA) (\<lambda>m.
     bind_err (getitem row COL_DESPESAS) (\<lambda>dp.
     bind_err (getitem row COL_RENDA) (\<lambda>rp.
     bind_err (pontos_despesas dp rp) (\<lambda>p3.
     bind_err (getitem row COL_BENS) (\<lambda>v.
     bind_err (pontos_bens v) (\<lambda>p4.
     Inr (p1 + pontos_moradia m + p3 + p4)))))))))"

definition calcular_indice_vulnerabilidade :: "dataframe \<Rightarrow> error + dataframe" where
  "calcular_indice_vulnerabilidade df =
     bind_err (apply_rows indice_linha (map (as_series df) (rows df))) (\<lambda>idx.
       assign_column df COL_INDICE (map (\<lambda>i. Num (of_int i)) idx))"

section \<open>Fast Greedy variant: loading the sheet (Fastgreedy.py)\<close>

text \<open>
  \<open>str(v)\<close> of a cell, as \<open>astype(str)\<close> applies it: a text is itself, a missing value
  prints as \<open>nan\<close>, and a number prints through \<open>num_str\<close>, the number formatting of
  Python, which is a parameter of the model.
\<close>

definition py_str :: "(rat \<Rightarrow> string) \<Rightarrow> cell \<Rightarrow> string" where
  "py_str num_str v = (case v of Str s \<Rightarrow> s | NaN \<Rightarrow> ''nan'' | Num x \<Rightarrow> num_str x)"

definition colunas :: "string list" where
  "colunas = [COL_MORADIA, COL_TRANSPORTE, COL_RENDA, COL_DESPESAS, COL_BENS]"

definition colunas_criticas :: "string list" where
  "colunas_criticas = [COL_RENDA, COL_DESPESAS, COL_BENS]"

text \<open>The loop \<open>for col in cs: if col not in df.columns: raise KeyError\<close>.\<close>

fun verificar_colunas :: "string list \<Rightarrow> string list \<Rightarrow> error + unit" where
  "verificar_colunas [] cols = Inr ()"
| "verificar_colunas (c # cs) cols =
     (if c \<in> set cols then verificar_colunas cs cols else Inl (KeyError c))"

text \<open>\<open>df[colunas]\<close>: the listed columns, in the listed order.\<close>

definition select_columns :: "dataframe \<Rightarrow> string list \<Rightarrow> dataframe" where
  "select_columns df cs =
     \<lparr>columns = cs, rows = map (\<lambda>r. map (cell_at (columns df) r) cs) (rows df)\<rparr>"

text \<open>\<open>df[c] = df[c].astype(str).str.strip()\<close>.\<close>

definition strip_column :: "(rat \<Rightarrow> string) \<Rightarrow> dataframe \<Rightarrow> string \<Rightarrow> dataframe" where
  "strip_column num_str df c =
     df\<lparr>rows := map (\<lambda>r. r[first_index c (columns df) :=
                Str (py_strip (py_str num_str (cell_at (columns df) r c)))]) (rows df)\<rparr>"

text \<open>The row numbers (the index of a freshly read sheet is \<open>0 .. n-1\<close>) whose cell in
  column \<open>col\<close> is missing: \<open>df[df[col].isna()].index.tolist()\<close>.\<close>

definition invalidos :: "dataframe \<Rightarrow> string \<Rightarrow> nat list" where
  "invalidos df col =
     filter (\<lambda>i. isna (cell_at (columns df) (rows df ! i) col)) [0..<length (rows df)]"

definition linhas_invalidas :: "dataframe \<Rightarrow> nat list" where
  "linhas_invalidas df = sort (remdups (concat (map (invalidos df) colunas_criticas)))"

text \<open>
  \<open>carregar_dados\<close> of the Fast Greedy variant. Its first argument is what
  \<open>pd.read_excel\<close> produced: the sheet, or the exception it raised. This variant only
  compares the headers with its five labels and selects those five columns, so a header
  that is not a text behaves as any other label that is none of the five.
\<close>

definition carregar_dados :: "(rat \<Rightarrow> string) \<Rightarrow> error + dataframe \<Rightarrow> error + dataframe" where
  "carregar_dados num_str lido =
     (case lido of
        Inl FileNotFoundError \<Rightarrow> Inl FileNotFoundError
      | Inl _ \<Rightarrow> Inl RuntimeError
      | Inr df0 \<Rightarrow>
          bind_err (verificar_colunas colunas (columns df0)) (\<lambda>_.
            let df1 = select_columns df0 colunas;
                df2 = strip_column num_str df1 (colunas ! 0);
                df3 = strip_column num_str df2 (colunas ! 1)
            in if linhas_invalidas df3 \<noteq> [] then Inl (ValueError (linhas_invalidas df3))
               else Inr df3))"

text \<open>The frame \<open>carregar_dados\<close> of the first variant has built when it looks for
  missing values: the five columns selected, the two text columns stripped.\<close>

definition preparado :: "(rat \<Rightarrow> string) \<Rightarrow> dataframe \<Rightarrow> dataframe" where
  "preparado num_str df =
     strip_column num_str (strip_column num_str (select_columns df colunas) COL_MORADIA)
       COL_TRANSPORTE"

section \<open>Leiden variant: scoring (Leiden_semfiltro.py)\<close>

text \<open>
  The second variant passes its texts through \<open>unidecode\<close> (a transliteration to ASCII
  from a package of that name), which is a parameter of the model, as are the number
  formatting \<open>num_str\<close> and the number parser \<open>parse_num\<close> of \<open>pd.to_numeric\<close>.
\<close>

definition pontos_renda_leiden :: "cell \<Rightarrow> error + int" where
  "pontos_renda_leiden r =
     (case r of
        NaN \<Rightarrow> Inr 0
      | Str _ \<Rightarrow> Inl TypeError
      | Num x \<Rightarrow>
          if x \<le> (1 / 2) * SALARIO_MINIMO then Inr 40
          else if x \<le> 1 * SALARIO_MINIMO then Inr 30
          else if x \<le> (3 / 2) * SALARIO_MINIMO then Inr 20
          else Inr 0)"

definition moradia_paga :: "(string \<Rightarrow> string) \<Rightarrow> cell \<Rightarrow> bool" where
  "moradia_paga unidecode v =
     (case v of
        Str s \<Rightarrow> unidecode (py_lower (py_strip s))
                   \<in> set [''aluguel'', ''financiado'', ''financiamento'']
      | _ \<Rightarrow> False)"

definition pontos_moradia_leiden :: "(string \<Rightarrow> string) \<Rightarrow> cell \<Rightarrow> cell \<Rightarrow> int" where
  "pontos_moradia_leiden unidecode moradia_aluno moradia_familia =
     (let pontos = 0;
          pontos = (if moradia_paga unidecode moradia_aluno then pontos + 8 else pontos);
          pontos = (if moradia_paga unidecode moradia_familia then pontos + 7 else pontos)
      in min pontos 15)"

definition pontos_procedencia :: "(string \<Rightarrow> string) \<Rightarrow> cell \<Rightarrow> int" where
  "pontos_procedencia unidecode escola =
     (case escola of
        Str s \<Rightarrow>
          (let e = unidecode (py_lower (py_strip s))
           in if py_in ''publica'' e then 10
              else if py_in ''bolsa'' e \<or> py_in ''filantropica'' e then 5
              else 0)
      | _ \<Rightarrow> 0)"

definition pontos_bens_leiden :: "cell \<Rightarrow> error + int" where
  "pontos_bens_leiden v =
     (case v of
        NaN \<Rightarrow> Inr 0
      | Str _ \<Rightarrow> Inl TypeError
      | Num x \<Rightarrow>
          if x = 0 then Inr 15
          else if x \<le> 20000 then Inr 10
          else if x \<le> 50000 then Inr 5
          else Inr 0)"

definition L_ID :: string where
  "L_ID = ''id_discente''"

definition L_PROCEDENCIA :: string where
  "L_PROCEDENCIA = ''qual sua procedencia escolar?''"

definition L_MORADIA_ALUNO :: string where
  "L_MORADIA_ALUNO = ''qual a situacao da moradia do aluno?''"

definition L_MORADIA_FAMILIA :: string where
  "L_MORADIA_FAMILIA = ''qual a situacao da moradia do grupo familiar?''"

definition L_FILHOS :: string where
  "L_FILHOS = ''quantos filhos o solicitante possui?''"

definition L_RENDA :: string where
  "L_RENDA = ''renda per capita''"

definition L_BENS :: string where
  "L_BENS = ''valor total dos bens familiares''"

definition L_DOENCA :: string where
  "L_DOENCA = ''quantidade de individuos com doenca grave no grupo familiar''"

definition L_SUPERIOR :: string where
  "L_SUPERIOR = ''familiares com superior completo ou pos''"

definition L_TRANSPORTE :: string where
  "L_TRANSPORTE =
     ''qual o principal meio de transporte que voce utiliza para vir ate a universidade?''"

definition L_INDICE :: string where
  "L_INDICE = ''indice vulnerabilidade''"

text \<open>\<open>v > 0\<close> in Python: false for a missing value, a \<open>TypeError\<close> for a text.\<close>

definition gt_zero :: "cell \<Rightarrow> error + bool" where
  "gt_zero v = (case v of NaN \<Rightarrow> Inr False | Num x \<Rightarrow> Inr (x > 0) | Str _ \<Rightarrow> Inl TypeError)"

definition pontos_savs :: "(string \<Rightarrow> string) \<Rightarrow> (rat \<Rightarrow> string) \<Rightarrow> series \<Rightarrow> error + int" where
  "pontos_savs unidecode num_str row =
     bind_err (gt_zero (get_default row L_DOENCA (Num 0))) (\<lambda>doenca.
     bind_err (gt_zero (get_default row L_FILHOS (Num 0))) (\<lambda>filhos.
       let pontos = 0;
           pontos = (if doenca then pontos + 5 else pontos);
           pontos = (if filhos then pontos + 5 else pontos);
           transporte = unidecode (py_lower (py_str num_str (get_default row L_TRANSPORTE (Str []))));
           pontos = (if list_ex (\<lambda>x. py_in x transporte)
                          [''zona rural'', ''cidade vizinha'', ''intermunicipal'']
                     then pontos + 5 else pontos);
           pontos = (if eq_zero (get_default row L_SUPERIOR (Num 0)) then pontos + 5 else pontos)
       in Inr (min pontos 20)))"

section \<open>Leiden variant: loading and index (Leiden_semfiltro.py)\<close>

definition colunas_obrigatorias :: "string list" where
  "colunas_obrigatorias =
     [L_ID, L_PROCEDENCIA, L_MORADIA_ALUNO, L_MORADIA_FAMILIA, L_FILHOS, L_RENDA, L_BENS,
      L_DOENCA, L_SUPERIOR, L_TRANSPORTE]"

text \<open>\<open>pd.to_numeric(v, errors='coerce')\<close> on one cell, then \<open>fillna(0)\<close>.\<close>

definition to_numeric :: "(string \<Rightarrow> rat option) \<Rightarrow> cell \<Rightarrow> cell" where
  "to_numeric parse_num v =
     (case v of
        Str s \<Rightarrow> (case parse_num s of None \<Rightarrow> NaN | Some x \<Rightarrow> Num x)
      | _ \<Rightarrow> v)"

definition fillna0 :: "cell \<Rightarrow> cell" where
  "fillna0 v = (if isna v then Num 0 else v)"

text \<open>The frame with every cell of column \<open>c\<close> passed through \<open>to_numeric\<close> and
  \<open>fillna(0)\<close>.\<close>

definition coluna_numerica :: "(string \<Rightarrow> rat option) \<Rightarrow> string \<Rightarrow> dataframe \<Rightarrow> dataframe" where
  "coluna_numerica parse_num c df =
     df\<lparr>rows := map (\<lambda>r. r[first_index c (columns df) :=
                fillna0 (to_numeric parse_num (cell_at (columns df) r c))]) (rows df)\<rparr>"

text \<open>
  The statement \<open>df[c] = pd.to_numeric(df[c], errors='coerce').fillna(0)\<close>. When the label
  \<open>c\<close> occurs more than once (two headers that the renaming made equal), \<open>df[c]\<close> is a
  frame of several columns and \<open>pd.to_numeric\<close> raises \<open>TypeError\<close>; an absent label
  raises \<open>KeyError\<close>.
\<close>

definition converter ::
    "(string \<Rightarrow> rat option) \<Rightarrow> string \<Rightarrow> dataframe \<Rightarrow> error + dataframe" where
  "converter parse_num c df =
     (if count_list (columns df) c = 1 then Inr (coluna_numerica parse_num c df)
      else if c \<in> set (columns df) then Inl TypeError
      else Inl (KeyError c))"

text \<open>\<open>v <= t\<close> on a cell of a numeric column: false for a missing value.\<close>

definition le_num :: "cell \<Rightarrow> rat \<Rightarrow> bool" where
  "le_num v t = (case v of Num x \<Rightarrow> x \<le> t | _ \<Rightarrow> False)"

text \<open>
  The sheet as \<open>pd.read_excel\<close> hands it to the second variant: a header cell is a text
  or not (a number, a date), and the headers are distinct as read.
\<close>

record planilha =
  cabecalhos :: "cell list"
  linhas :: "cell list list"

text \<open>\<open>[unidecode(col.strip().lower()) for col in df.columns]\<close>: a header that is not a
  text has no \<open>strip\<close> and raises \<open>AttributeError\<close>.\<close>

fun normalizar_cabecalhos :: "(string \<Rightarrow> string) \<Rightarrow> cell list \<Rightarrow> error + string list" where
  "normalizar_cabecalhos unidecode [] = Inr []"
| "normalizar_cabecalhos unidecode (h # hs) =
     (case h of
        Str col \<Rightarrow>
          bind_err (normalizar_cabecalhos unidecode hs)
            (\<lambda>cs. Inr (unidecode (py_lower (py_strip col)) # cs))
      | _ \<Rightarrow> Inl AttributeError)"

definition carregar_dados_leiden ::
    "(string \<Rightarrow> string) \<Rightarrow> (string \<Rightarrow> rat option) \<Rightarrow> error + planilha \<Rightarrow> error + dataframe" where
  "carregar_dados_leiden unidecode parse_num lido =
     bind_err lido (\<lambda>sheet.
     bind_err (normalizar_cabecalhos unidecode (cabecalhos sheet)) (\<lambda>cols.
       let df = \<lparr>columns = cols, rows = linhas sheet\<rparr>
       in bind_err (verificar_colunas colunas_obrigatorias (columns df)) (\<lambda>_.
          bind_err (converter parse_num L_RENDA df) (\<lambda>df.
          bind_err (converter parse_num L_BENS df) (\<lambda>df.
          bind_err (converter parse_num L_FILHOS df) (\<lambda>df.
          bind_err (converter parse_num L_DOENCA df) (\<lambda>df.
          bind_err (converter parse_num L_SUPERIOR df) (\<lambda>df.
            Inr (df\<lparr>rows := filter (\<lambda>r. le_num (cell_at (columns df) r L_RENDA)
                                           ((3 / 2) * SALARIO_MINIMO)) (rows df)\<rparr>)))))))))"

definition pontuar :: "(string \<Rightarrow> string) \<Rightarrow> (rat \<Rightarrow> string) \<Rightarrow> series \<Rightarrow> error + int" where
  "pontuar unidecode num_str row =
     bind_err (getitem row L_RENDA) (\<lambda>r.
     bind_err (pontos_renda_leiden r) (\<lambda>p1.
     bind_err (getitem row L_MORADIA_ALUNO) (\<lambda>ma.
     bind_err (getitem row L_MORADIA_FAMILIA) (\<lambda>mf.
     bind_err (getitem row L_PROCEDENCIA) (\<lambda>esc.
     bind_err (getitem row L_BENS) (\<lambda>v.
     bind_err (pontos_bens_leiden v) (\<lambda>p4.
     bind_err (pontos_savs unidecode num_str row) (\<lambda>p5.
     Inr (p1 + pontos_moradia_leiden unidecode ma mf + pontos_procedencia unidecode esc
          + p4 + p5)))))))))"

text \<open>\<open>Series.clip(upper=100)\<close> on one value.\<close>

definition clip_upper :: "int \<Rightarrow> int \<Rightarrow> int" where
  "clip_upper u x = min x u"

definition calcular_indice_vulnerabilidade_leiden ::
    "(string \<Rightarrow> string) \<Rightarrow> (rat \<Rightarrow> string) \<Rightarrow> dataframe \<Rightarrow> error + dataframe" where
  "calcular_indice_vulnerabilidade_leiden unidecode num_str df =
     bind_err (apply_rows (pontuar unidecode num_str) (map (as_series df) (rows df))) (\<lambda>raw.
       assign_column df L_INDICE (map (\<lambda>i. Num (of_int (clip_upper 100 i))) raw))"

section \<open>Similarity graph (both variants)\<close>

text \<open>
  An igraph graph: vertices \<open>0 .. vcount-1\<close>, an edge list, the directedness flag and
  the two attributes the code sets. \<open>ig.Graph(edges=..., directed=...)\<close> is called
  without a vertex count, so igraph creates just enough vertices for the largest
  endpoint in the edge list: none at all for an empty list.
\<close>

record graph =
  vcount :: nat
  es :: "(nat \<times> nat) list"
  directed :: bool
  es_weight :: "rat list"
  vs_label :: "nat list"

definition Graph :: "(nat \<times> nat) list \<Rightarrow> bool \<Rightarrow> graph" where
  "Graph edges d =
     \<lparr>vcount = fold (\<lambda>(i, j) m. max m (Suc (max i j))) edges 0,
      es = edges, directed = d, es_weight = [], vs_label = []\<rparr>"

text \<open>\<open>g.vs['label'] = labels\<close> gives a label to each existing vertex, reusing the list
  cyclically and ignoring what is left over; it creates no vertex. A label \<open>str(i)\<close>
  is kept as the number \<open>i\<close>.\<close>

definition set_vs_label :: "graph \<Rightarrow> nat list \<Rightarrow> graph" where
  "set_vs_label g labels =
     g\<lparr>vs_label := map (\<lambda>v. labels ! (v mod length labels)) [0..<vcount g]\<rparr>"

text \<open>One pass of the inner loop body, the inner loop \<open>for j in range(i + 1, n)\<close> and the
  outer loop \<open>for i in range(n)\<close>; the accumulator is \<open>(edges, weights)\<close>.\<close>

definition visitar :: "(nat \<Rightarrow> nat \<Rightarrow> rat) \<Rightarrow> rat \<Rightarrow> nat \<Rightarrow> nat
    \<Rightarrow> (nat \<times> nat) list \<times> rat list \<Rightarrow> (nat \<times> nat) list \<times> rat list" where
  "visitar matriz_sim limiar i j acc =
     (let sim = matriz_sim i j
      in if sim \<ge> limiar then (fst acc @ [(i, j)], snd acc @ [sim]) else acc)"

definition laco_j :: "(nat \<Rightarrow> nat \<Rightarrow> rat) \<Rightarrow> rat \<Rightarrow> nat \<Rightarrow> nat
    \<Rightarrow> (nat \<times> nat) list \<times> rat list \<Rightarrow> (nat \<times> nat) list \<times> rat list" where
  "laco_j matriz_sim limiar n i acc = fold (visitar matriz_sim limiar i) [Suc i..<n] acc"

definition laco_i :: "(nat \<Rightarrow> nat \<Rightarrow> rat) \<Rightarrow> rat \<Rightarrow> nat \<Rightarrow> (nat \<times> nat) list \<times> rat list" where
  "laco_i matriz_sim limiar n = fold (laco_j matriz_sim limiar n) [0..<n] ([], [])"

text \<open>
  \<open>construir_grafo\<close>. The parameter \<open>gower_matrix\<close> is the function of the \<open>gower\<close>
  package: from the rows of the frame it returns the square matrix of normalized Gower
  distances (entry \<open>i j\<close> is 0 for identical rows \<open>i\<close> and \<open>j\<close>), here read as a
  function of the two indices. The code binds that matrix to \<open>matriz_sim\<close> and compares
  its entries with the threshold as they are.
\<close>

definition SIMILARIDADE_LIMIAR :: rat where
  "SIMILARIDADE_LIMIAR = 1 / 2"

definition construir_grafo ::
    "(cell list list \<Rightarrow> nat \<Rightarrow> nat \<Rightarrow> rat) \<Rightarrow> string \<Rightarrow> dataframe \<Rightarrow> rat
      \<Rightarrow> error + (graph \<times> rat list)" where
  "construir_grafo gower_matrix col_indice df limiar =
     bind_err (drop_column df col_indice) (\<lambda>df_sim.
       let matriz_sim = gower_matrix (rows df_sim);
           n = length (rows df_sim);
           (edges, weights) = laco_i matriz_sim limiar n;
           g = Graph edges False;
           g = g\<lparr>es_weight := weights\<rparr>;
           g = set_vs_label g [0..<n]
       in Inr (g, weights))"

text \<open>
  What igraph answers when asked for the edges between two vertices: in an undirected
  graph an edge stored as \<open>(a, b)\<close> joins \<open>a\<close> and \<open>b\<close> in both directions. The result
  lists the weight of every such edge.
\<close>

definition pesos_entre :: "graph \<Rightarrow> nat \<Rightarrow> nat \<Rightarrow> rat list" where
  "pesos_entre g i j =
     map snd (filter (\<lambda>(e, w). if directed g then e = (i, j) else (e = (i, j) \<or> e = (j, i)))
                (zip (es g) (es_weight g)))"

text \<open>
  \<open>calcular_estatisticas_por_grupo\<close>: the assignment of the membership list as a new
  column, which is where a membership list of the wrong length raises. The group
  statistics computed afterwards (mean, standard deviation, count) are left out.
\<close>

definition calcular_estatisticas_por_grupo :: "dataframe \<Rightarrow> nat list \<Rightarrow> error + dataframe" where
  "calcular_estatisticas_por_grupo df membership =
     assign_column df COL_GRUPO (map (\<lambda>c. Num (of_nat c)) membership)"

text \<open>
  The run of \<open>main\<close> after loading: index, graph, community detection, annotation.
  \<open>detect\<close> stands for the community detection of igraph (\<open>community_fastgreedy\<close> and
  \<open>as_clustering\<close>), which returns one label per vertex of the graph it is given.
\<close>

definition executar :: "(cell list list \<Rightarrow> nat \<Rightarrow> nat \<Rightarrow> rat) \<Rightarrow> (graph \<Rightarrow> nat list)
    \<Rightarrow> dataframe \<Rightarrow> error + dataframe" where
  "executar gower_matrix detect df_raw =
     bind_err (calcular_indice_vulnerabilidade df_raw) (\<lambda>df_vul.
     bind_err (construir_grafo gower_matrix COL_INDICE df_vul SIMILARIDADE_LIMIAR) (\<lambda>(grafo, pesos).
     calcular_estatisticas_por_grupo df_vul (detect grafo)))"

section \<open>Example inputs\<close>

definition linha_exemplo :: series where
  "linha_exemplo = [(COL_MORADIA, Str ''quitada''), (COL_TRANSPORTE, Str ''onibus''),
     (COL_RENDA, Num 1000), (COL_DESPESAS, Num 1600), (COL_BENS, Num 5000)]"

text \<open>
  Three respondents. Rows 0 and 1 differ in three of the five compared fields (housing,
  transport, income at the two ends of its range) and agree in two, so their Gower
  distance is 3/5. Row 2 shares the housing of row 0 and the transport of row 1 and has
  the middle income, so it is at distance (1 + 1/2) / 5 = 3/10 from both.
  \<open>gower3\<close> is that distance matrix.
\<close>

definition df3_raw :: dataframe where
  "df3_raw = \<lparr>columns = colunas,
     rows = [[Str ''alugada'', Str ''onibus'', Num 0, Num 0, Num 0],
             [Str ''quitada'', Str ''carro'', Num 1000, Num 0, Num 0],
             [Str ''alugada'', Str ''carro'', Num 500, Num 0, Num 0]]\<rparr>"

definition df3_vul :: dataframe where
  "df3_vul = \<lparr>columns = colunas @ [COL_INDICE],
     rows = [[Str ''alugada'', Str ''onibus'', Num 0, Num 0, Num 0, Num 80],
             [Str ''quitada'', Str ''carro'', Num 1000, Num 0, Num 0, Num 50],
             [Str ''alugada'', Str ''carro'', Num 500, Num 0, Num 0, Num 70]]\<rparr>"

definition gower3 :: "cell list list \<Rightarrow> nat \<Rightarrow> nat \<Rightarrow> rat" where
  "gower3 vals i j = (if i = j then 0 else if i + j = 1 then 3 / 5 else 3 / 10)"

definition g3 :: graph where
  "g3 = \<lparr>vcount = 2, es = [(0, 1)], directed = False, es_weight = [3 / 5], vs_label = [0, 1]\<rparr>"

text \<open>Two respondents with the same answers in every field: their Gower distance is 0.\<close>

definition df2_raw :: dataframe where
  "df2_raw = \<lparr>columns = colunas,
     rows = [[Str ''alugada'', Str ''onibus'', Num 0, Num 0, Num 0],
             [Str ''alugada'', Str ''onibus'', Num 0, Num 0, Num 0]]\<rparr>"

definition df2_vul :: dataframe where
  "df2_vul = \<lparr>columns = colunas @ [COL_INDICE],
     rows = [[Str ''alugada'', Str ''onibus'', Num 0, Num 0, Num 0, Num 80],
             [Str ''alugada'', Str ''onibus'', Num 0, Num 0, Num 0, Num 80]]\<rparr>"

definition gower_iguais :: "cell list list \<Rightarrow> nat \<Rightarrow> nat \<Rightarrow> rat" where
  "gower_iguais vals i j = 0"

text \<open>Two respondents that differ in every field: their Gower distance is 1.\<close>

definition df2_dif_vul :: dataframe where
  "df2_dif_vul = \<lparr>columns = colunas @ [COL_INDICE],
     rows = [[Str ''alugada'', Str ''onibus'', Num 0, Num 0, Num 0, Num 80],
             [Str ''quitada'', Str ''carro'', Num 3000, Num 900, Num 200000, Num 5]]\<rparr>"

definition gower_opostos :: "cell list list \<Rightarrow> nat \<Rightarrow> nat \<Rightarrow> rat" where
  "gower_opostos vals i j = (if i = j then 0 else 1)"

text \<open>A community detection that puts every vertex of the graph it is given in
  community 0; like every detection, it labels the vertices of that graph and only
  those.\<close>

definition uma_comunidade :: "graph \<Rightarrow> nat list" where
  "uma_comunidade g = replicate (vcount g) 0"

text \<open>A respondent of the second variant who scores in every category. \<open>sem_acentos\<close> is
  \<open>unidecode\<close> on texts that are already ASCII, which it returns unchanged; \<open>num_zero\<close>
  formats a number (no text of this row is a number).\<close>

definition sem_acentos :: "string \<Rightarrow> string" where
  "sem_acentos s = s"

definition num_zero :: "rat \<Rightarrow> string" where
  "num_zero x = ''0''"

definition linha_leiden :: series where
  "linha_leiden =
     [(L_ID, Num 1), (L_PROCEDENCIA, Str ''Escola Publica''), (L_MORADIA_ALUNO, Str ''Aluguel''),
      (L_MORADIA_FAMILIA, Str ''Financiado''), (L_FILHOS, Num 2), (L_RENDA, Num 500),
      (L_BENS, Num 0), (L_DOENCA, Num 1), (L_SUPERIOR, Num 0),
      (L_TRANSPORTE, Str ''onibus intermunicipal'')]"

text \<open>A sheet of the second variant with one respondent, already loaded.\<close>

definition df_leiden :: dataframe where
  "df_leiden = \<lparr>columns = map fst linha_leiden, rows = [map snd linha_leiden]\<rparr>"

definition df_leiden_vul :: dataframe where
  "df_leiden_vul = \<lparr>columns = map fst linha_leiden @ [L_INDICE],
     rows = [map snd linha_leiden @ [Num 100]]\<rparr>"

text \<open>Sheets for the loaders. For the first variant: one without the housing and
  transport columns, one with a missing income in its second row. For the second variant:
  one with a single column; one whose only respondent has a missing income
  (\<open>df_leiden_ausente\<close> is that sheet with its headers normalised, \<open>df_leiden_zero\<close> what
  the loader makes of it); one that has, besides the ten required headers, the header
  \<open>Renda per capita\<close> followed by a space, which the renaming makes equal to the income
  label; and one with the number 2018 as its first header. \<open>nao_numero\<close> is the parser of
  \<open>pd.to_numeric\<close> on texts that are not numbers.\<close>

definition df_sem_coluna :: dataframe where
  "df_sem_coluna = \<lparr>columns = [COL_RENDA, COL_DESPESAS, COL_BENS],
     rows = [[Num 100, Num 50, Num 0]]\<rparr>"

definition df_renda_ausente :: dataframe where
  "df_renda_ausente = \<lparr>columns = colunas,
     rows = [[Str ''alugada'', Str ''onibus'', Num 0, Num 0, Num 0],
             [Str ''quitada'', Str ''carro'', NaN, Num 10, Num 0]]\<rparr>"

definition nao_numero :: "string \<Rightarrow> rat option" where
  "nao_numero s = None"

definition planilha_sem_coluna :: planilha where
  "planilha_sem_coluna = \<lparr>cabecalhos = [Str L_ID], linhas = [[Num 1]]\<rparr>"

definition planilha_ausente :: planilha where
  "planilha_ausente = \<lparr>cabecalhos = map (\<lambda>(k, v). Str k) linha_leiden,
     linhas = [[Num 7, Str ''Escola Publica'', Str ''Aluguel'', Str ''Financiado'', Num 2, NaN,
                Num 0, Num 1, Num 0, Str ''onibus intermunicipal'']]\<rparr>"

definition planilha_colisao :: planilha where
  "planilha_colisao = \<lparr>cabecalhos = map (\<lambda>(k, v). Str k) linha_leiden
                                     @ [Str ''Renda per capita ''],
     linhas = [[Num 7, Str ''Escola Publica'', Str ''Aluguel'', Str ''Financiado'', Num 2,
                Num 500, Num 0, Num 1, Num 0, Str ''onibus intermunicipal'', Num 900]]\<rparr>"

definition planilha_cabecalho_numero :: planilha where
  "planilha_cabecalho_numero = \<lparr>cabecalhos = Num 2018 # map (\<lambda>(k, v). Str k) linha_leiden,
     linhas = [[Num 1, Num 7, Str ''Escola Publica'', Str ''Aluguel'', Str ''Financiado'', Num 2,
                Num 500, Num 0, Num 1, Num 0, Str ''onibus intermunicipal'']]\<rparr>"

definition df_leiden_ausente :: dataframe where
  "df_leiden_ausente = \<lparr>columns = map fst linha_leiden,
     rows = [[Num 7, Str ''Escola Publica'', Str ''Aluguel'', Str ''Financiado'', Num 2, NaN,
              Num 0, Num 1, Num 0, Str ''onibus intermunicipal'']]\<rparr>"

definition df_leiden_zero :: dataframe where
  "df_leiden_zero = \<lparr>columns = map fst linha_leiden,
     rows = [[Num 7, Str ''Escola Publica'', Str ''Aluguel'', Str ''Financiado'', Num 2, Num 0,
              Num 0, Num 1, Num 0, Str ''onibus intermunicipal'']]\<rparr>"

section \<open>Properties of the scoring functions\<close>

lemma pontos_renda_range: "pontos_renda r = Inr p \<Longrightarrow> 0 \<le> p \<and> p \<le> 40"
  by (auto simp: pontos_renda_def split: cell.splits if_splits)

lemma pontos_moradia_range: "0 \<le> pontos_moradia m \<and> pontos_moradia m \<le> 15"
  by (simp add: pontos_moradia_def Let_def split: cell.splits)

lemma pontos_despesas_values:
  "pontos_despesas dp rp \<in> {Inr 10, Inr 7, Inr 4, Inr 0, Inl TypeError}"
  unfolding pontos_despesas_def Let_def
  by (cases dp; cases rp) (simp_all del: divide_less_eq_numeral1 less_divide_eq_numeral1)

lemma pontos_despesas_range: "pontos_despesas dp rp = Inr p \<Longrightarrow> 0 \<le> p \<and> p \<le> 10"
  using pontos_despesas_values [of dp rp] by auto

lemma pontos_bens_range: "pontos_bens v = Inr p \<Longrightarrow> 0 \<le> p \<and> p \<le> 15"
  by (auto simp: pontos_bens_def split: cell.splits if_splits)


lemma quitada_lower: "py_lower (py_strip ''quitada'') = ''quitada''"
  by (simp add: py_lower_def py_strip_def py_isspace_def lower_char_def Let_def)

lemma pontos_renda_total: "\<not> isinstance_str r \<Longrightarrow> \<exists>p. pontos_renda r = Inr p"
  by (cases r) (simp_all add: pontos_renda_def isinstance_str_def)

lemma pontos_bens_total: "\<not> isinstance_str v \<Longrightarrow> \<exists>p. pontos_bens v = Inr p"
  by (cases v) (simp_all add: pontos_bens_def isinstance_str_def)

lemma pontos_despesas_total:
  "\<not> isinstance_str dp \<Longrightarrow> \<not> isinstance_str rp \<Longrightarrow> \<exists>p. pontos_despesas dp rp = Inr p"
  unfolding pontos_despesas_def Let_def
  by (cases dp; cases rp)
    (simp_all add: isinstance_str_def isna_def
      del: divide_less_eq_numeral1 less_divide_eq_numeral1)

section \<open>The vulnerability index of the Fast Greedy variant\<close>

lemma indice_linha_parts:
  "indice_linha row = Inr s \<Longrightarrow>
     \<exists>r m dp v p1 p3 p4. pontos_renda r = Inr p1 \<and> pontos_despesas dp r = Inr p3
        \<and> pontos_bens v = Inr p4 \<and> s = p1 + pontos_moradia m + p3 + p4"
  unfolding indice_linha_def bind_err_def
  by (simp split: sum.splits) blast

lemma indice_linha_range:
  assumes "indice_linha row = Inr s"
  shows "0 \<le> s \<and> s \<le> 80"
proof -
  from indice_linha_parts [OF assms] obtain r m dp v p1 p3 p4 where
    a: "pontos_renda r = Inr p1" and b: "pontos_despesas dp r = Inr p3"
    and c: "pontos_bens v = Inr p4" and s: "s = p1 + pontos_moradia m + p3 + p4"
    by blast
  from pontos_renda_range [OF a] pontos_despesas_range [OF b] pontos_bens_range [OF c]
    pontos_moradia_range [of m] s
  show ?thesis by linarith
qed

text \<open>A row whose three numeric cells hold numbers or missing values is scored: the
  index is computed, nothing raises.\<close>

lemma indice_linha_total:
  assumes "getitem row COL_RENDA = Inr r" "getitem row COL_MORADIA = Inr m"
    "getitem row COL_DESPESAS = Inr dp" "getitem row COL_BENS = Inr v"
    "\<not> isinstance_str r" "\<not> isinstance_str dp" "\<not> isinstance_str v"
  shows "\<exists>s. indice_linha row = Inr s"
proof -
  from pontos_renda_total [OF assms(5)] obtain p1 where a: "pontos_renda r = Inr p1" by blast
  from pontos_despesas_total [OF assms(6) assms(5)] obtain p3 where
    b: "pontos_despesas dp r = Inr p3" by blast
  from pontos_bens_total [OF assms(7)] obtain p4 where c: "pontos_bens v = Inr p4" by blast
  show ?thesis
    by (simp add: indice_linha_def bind_err_def assms(1-4) a b c)
qed

lemma indice_linha_exemplo: "indice_linha linha_exemplo = Inr 52"
  by (simp add: linha_exemplo_def indice_linha_def getitem_def bind_err_def COL_MORADIA_def
      COL_TRANSPORTE_def COL_RENDA_def COL_DESPESAS_def COL_BENS_def pontos_renda_def
      SALARIO_MINIMO_def pontos_moradia_def quitada_lower pontos_despesas_def isna_def
      eq_zero_def pontos_bens_def)

lemma partes_exemplo:
  "pontos_renda (Num 1000) = Inr 30 \<and> pontos_despesas (Num 1600) (Num 1000) = Inr 7
   \<and> pontos_bens (Num 5000) = Inr 10"
  by (simp add: pontos_renda_def SALARIO_MINIMO_def pontos_despesas_def isna_def eq_zero_def
      pontos_bens_def)


section \<open>The similarity graph\<close>

lemma fold_visitar:
  "fold (visitar M l i) js acc =
     (fst acc @ map (Pair i) (filter (\<lambda>j. l \<le> M i j) js),
      snd acc @ map (M i) (filter (\<lambda>j. l \<le> M i j) js))"
  by (induction js arbitrary: acc) (simp_all add: visitar_def Let_def)

lemma fold_laco_j:
  "fold (laco_j M l n) is acc =
     (fst acc @ concat (map (\<lambda>i. map (Pair i) (filter (\<lambda>j. l \<le> M i j) [Suc i..<n])) is),
      snd acc @ concat (map (\<lambda>i. map (M i) (filter (\<lambda>j. l \<le> M i j) [Suc i..<n])) is))"
  by (induction "is" arbitrary: acc) (simp_all add: laco_j_def fold_visitar)

lemma laco_i_edges:
  "fst (laco_i M l n) =
     concat (map (\<lambda>i. map (Pair i) (filter (\<lambda>j. l \<le> M i j) [Suc i..<n])) [0..<n])"
  by (simp add: laco_i_def fold_laco_j)

lemma laco_i_weights:
  "snd (laco_i M l n) = map (\<lambda>(i, j). M i j) (fst (laco_i M l n))"
  by (simp add: laco_i_def fold_laco_j map_concat comp_def)

lemma set_laco_i:
  "(i, j) \<in> set (fst (laco_i M l n)) \<longleftrightarrow> i < j \<and> j < n \<and> l \<le> M i j"
  by (force simp: laco_i_edges)

lemma distinct_concat_pairs:
  "distinct is \<Longrightarrow> distinct (concat (map (\<lambda>i. map (Pair i) (filter (P i) [Suc i..<n])) is))"
  by (induction "is") (auto simp: distinct_map inj_on_def)

lemma distinct_laco_i: "distinct (fst (laco_i M l n))"
  unfolding laco_i_edges by (rule distinct_concat_pairs) simp

lemma construir_grafo_Inr:
  assumes "construir_grafo gm col df l = Inr (g, ws)"
  shows "\<exists>df_sim. drop_column df col = Inr df_sim
           \<and> length (rows df_sim) = length (rows df)
           \<and> es g = fst (laco_i (gm (rows df_sim)) l (length (rows df)))
           \<and> ws = snd (laco_i (gm (rows df_sim)) l (length (rows df)))
           \<and> es_weight g = ws
           \<and> \<not> directed g
           \<and> vcount g = fold (\<lambda>(i, j) m. max m (Suc (max i j))) (es g) 0"
  using assms
  by (auto simp: construir_grafo_def bind_err_def Let_def Graph_def set_vs_label_def
      drop_column_def split: sum.splits prod.splits if_splits)

lemma map_fst_filter_zip:
  "length xs = length ys \<Longrightarrow>
     map fst (filter (\<lambda>(e, w). Q e) (zip xs ys)) = filter Q xs"
  by (induction xs ys rule: list_induct2) simp_all

lemma length_pesos_entre:
  assumes "length (es_weight g) = length (es g)"
  shows "length (pesos_entre g i j)
     = length (filter (\<lambda>e. if directed g then e = (i, j) else (e = (i, j) \<or> e = (j, i))) (es g))"
proof -
  have "length (pesos_entre g i j)
      = length (map fst (filter (\<lambda>(e, w). if directed g then e = (i, j) else (e = (i, j) \<or> e = (j, i)))
                 (zip (es g) (es_weight g))))"
    by (simp add: pesos_entre_def)
  also have "\<dots> = length (filter (\<lambda>e. if directed g then e = (i, j) else (e = (i, j) \<or> e = (j, i))) (es g))"
    using map_fst_filter_zip [OF assms [symmetric]] by simp
  finally show ?thesis .
qed

lemma pesos_entre_sym: "\<not> directed g \<Longrightarrow> pesos_entre g i j = pesos_entre g j i"
  by (simp add: pesos_entre_def disj_commute)

lemma filter_le_one:
  fixes xs :: "(nat \<times> nat) list"
  assumes "distinct xs" "\<And>e. e \<in> set xs \<Longrightarrow> fst e < snd e"
  shows "length (filter (\<lambda>e. e = (i, j) \<or> e = (j, i)) xs) \<le> 1"
proof -
  let ?F = "filter (\<lambda>e. e = (i, j) \<or> e = (j, i)) xs"
  have sub: "set ?F \<subseteq> (if i < j then {(i, j)} else {(j, i)})"
  proof (cases "i < j")
    case True
    have "(j, i) \<notin> set xs" using assms(2) [of "(j, i)"] True by auto
    then show ?thesis using True by auto
  next
    case False
    have "(i, j) \<in> set xs \<Longrightarrow> False" using assms(2) [of "(i, j)"] False by auto
    then show ?thesis using False by auto
  qed
  have "length ?F = card (set ?F)"
    by (rule distinct_card [symmetric]) (simp add: assms(1))
  also have "\<dots> \<le> card (if i < j then {(i, j)} else {(j, i)})"
    by (rule card_mono [OF _ sub]) simp
  also have "\<dots> = 1" by simp
  finally show ?thesis .
qed

lemma pesos_entre_loop_free:
  assumes "length (es_weight g) = length (es g)" "\<And>e. e \<in> set (es g) \<Longrightarrow> fst e < snd e"
  shows "pesos_entre g i i = []"
proof -
  have "filter (\<lambda>e. if directed g then e = (i, i) else (e = (i, i) \<or> e = (i, i))) (es g) = []"
    using assms(2) by (fastforce simp: filter_empty_conv)
  then show ?thesis
    using length_pesos_entre [OF assms(1), of i i] by simp
qed

text \<open>What the loops of \<open>construir_grafo\<close> compute: the pairs \<open>i < j\<close> of row numbers whose
  entry of the matrix returned by \<open>gower_matrix\<close> is at least the threshold, each weighted
  by that entry.\<close>

lemma construir_grafo_arestas:
  assumes "construir_grafo gm col df l = Inr (g, ws)" "drop_column df col = Inr df_sim"
  shows "((i, j) \<in> set (es g) \<longleftrightarrow> i < j \<and> j < length (rows df) \<and> l \<le> gm (rows df_sim) i j)
         \<and> ws = map (\<lambda>(i, j). gm (rows df_sim) i j) (es g)"
  using construir_grafo_Inr [OF assms(1)] assms(2)
  by (auto simp: set_laco_i laco_i_weights)

lemma construir_grafo_sem_arestas:
  assumes "construir_grafo gm col df l = Inr (g, ws)" "es g = []"
  shows "vcount g = 0"
  using construir_grafo_Inr [OF assms(1)] assms(2) by auto

lemma executar_comprimento:
  assumes "calcular_indice_vulnerabilidade df_raw = Inr df_vul"
    "construir_grafo gm COL_INDICE df_vul SIMILARIDADE_LIMIAR = Inr (g, ws)"
    "length (detect g) \<noteq> length (rows df_vul)"
  shows "executar gm detect df_raw = Inl (LengthError (length (detect g)) (length (rows df_vul)))"
  using assms
  by (simp add: executar_def bind_err_def calcular_estatisticas_por_grupo_def assign_column_def)

lemma grafo3: "construir_grafo gower3 COL_INDICE df3_vul (1 / 2) = Inr (g3, [3 / 5])"
  by code_simp

text \<open>
  Claim C8. The graph built by \<open>construir_grafo\<close> is undirected, so the edges between
  \<open>i\<close> and \<open>j\<close> are the edges between \<open>j\<close> and \<open>i\<close>, with the same weights; no vertex is
  joined to itself; and two vertices are joined by at most one edge (the edge list has
  no repetition and holds each pair in the orientation \<open>i < j\<close> only).
\<close>

theorem grafo_nao_dirigido_simples:
  assumes "construir_grafo gm col df l = Inr (g, ws)"
  shows "\<not> directed g
     \<and> pesos_entre g i j = pesos_entre g j i
     \<and> (w \<in> set (pesos_entre g i j) \<longrightarrow> w \<in> set (pesos_entre g j i))
     \<and> pesos_entre g i i = []
     \<and> length (pesos_entre g i j) \<le> 1
     \<and> distinct (es g)
     \<and> (\<forall>e \<in> set (es g). fst e < snd e)"
proof -
  from construir_grafo_Inr [OF assms] obtain M n where
    e: "es g = fst (laco_i M l n)" and w: "es_weight g = snd (laco_i M l n)"
    and d: "\<not> directed g"
    by blast
  have len: "length (es_weight g) = length (es g)"
    by (simp add: e w laco_i_weights)
  have dist: "distinct (es g)"
    by (simp add: e distinct_laco_i)
  have ord: "\<And>e. e \<in> set (es g) \<Longrightarrow> fst e < snd e"
    using set_laco_i [of _ _ M l n] by (auto simp: e)
  have sym: "pesos_entre g i j = pesos_entre g j i"
    by (rule pesos_entre_sym [OF d])
  have one: "length (pesos_entre g i j) \<le> 1"
    using length_pesos_entre [OF len, of i j] filter_le_one [OF dist ord, of i j] d by simp
  have noloop: "pesos_entre g i i = []"
    by (rule pesos_entre_loop_free [OF len ord])
  from d sym one noloop dist ord show ?thesis by simp
qed

theorem grafo_nao_dirigido_simples_witness:
  "construir_grafo gower3 COL_INDICE df3_vul (1 / 2) = Inr (g3, [3 / 5])
   \<and> \<not> directed g3
   \<and> pesos_entre g3 0 1 = [3 / 5] \<and> pesos_entre g3 1 0 = [3 / 5]
   \<and> pesos_entre g3 0 0 = []
   \<and> length (pesos_entre g3 0 1) \<le> 1
   \<and> distinct (es g3)"
proof -
  have p: "pesos_entre g3 0 1 = [3 / 5]" by code_simp
  from grafo_nao_dirigido_simples [OF grafo3, of 0 1 "3 / 5"] p grafo3
  show ?thesis by simp
qed

lemma calc3: "calcular_indice_vulnerabilidade df3_raw = Inr df3_vul"
  by code_simp

lemma calc2: "calcular_indice_vulnerabilidade df2_raw = Inr df2_vul"
  by code_simp

text \<open>
  Claim C1. The claim asks for an edge between \<open>i\<close> and \<open>j\<close> exactly when the similarity,
  1 minus the normalized Gower distance, reaches the threshold, weighted by that
  similarity. \<open>construir_grafo\<close> compares the entry of the distance matrix itself with
  the threshold and uses it as the weight. Two identical respondents (distance 0,
  similarity 1) get no edge; two respondents that differ in every field (distance 1,
  similarity 0) get an edge of weight 1.
\<close>

theorem construir_grafo_compara_distancia:
  "1 - gower_iguais (rows df2_vul) 0 1 \<ge> SIMILARIDADE_LIMIAR
   \<and> construir_grafo gower_iguais COL_INDICE df2_vul SIMILARIDADE_LIMIAR
       = Inr (\<lparr>vcount = 0, es = [], directed = False, es_weight = [], vs_label = []\<rparr>, [])
   \<and> 1 - gower_opostos (rows df2_dif_vul) 0 1 < SIMILARIDADE_LIMIAR
   \<and> construir_grafo gower_opostos COL_INDICE df2_dif_vul SIMILARIDADE_LIMIAR
       = Inr (\<lparr>vcount = 2, es = [(0, 1)], directed = False, es_weight = [1],
               vs_label = [0, 1]\<rparr>, [1])"
  by code_simp

text \<open>
  Claim C2. The claim asks for one vertex per respondent row and one community label per
  respondent. The graph is created from the edge list alone, so it has only as many
  vertices as the largest endpoint of an edge requires. With three respondents of which
  only the first two are joined, the graph has two vertices, every membership list for
  it has two labels, and assigning it to the three-row frame raises.
\<close>

theorem grafo_sem_vertice_para_isolado:
  "calcular_indice_vulnerabilidade df3_raw = Inr df3_vul
   \<and> length (rows df3_vul) = 3
   \<and> construir_grafo gower3 COL_INDICE df3_vul SIMILARIDADE_LIMIAR = Inr (g3, [3 / 5])
   \<and> vcount g3 = 2
   \<and> uma_comunidade g3 = [0, 0]
   \<and> calcular_estatisticas_por_grupo df3_vul [0, 0] = Inl (LengthError 2 3)
   \<and> executar gower3 uma_comunidade df3_raw = Inl (LengthError 2 3)"
  by code_simp

text \<open>
  Claim C5. The claim asks that a graph without edges yields one community per
  respondent and no error. Without edges the graph has no vertex at all, the membership
  list is empty, and assigning it to the frame of two respondents raises.
\<close>

theorem grafo_sem_arestas_sem_vertices:
  "calcular_indice_vulnerabilidade df2_raw = Inr df2_vul
   \<and> length (rows df2_vul) = 2
   \<and> construir_grafo gower_iguais COL_INDICE df2_vul SIMILARIDADE_LIMIAR
       = Inr (\<lparr>vcount = 0, es = [], directed = False, es_weight = [], vs_label = []\<rparr>, [])
   \<and> uma_comunidade \<lparr>vcount = 0, es = [], directed = False, es_weight = [], vs_label = []\<rparr> = []
   \<and> calcular_estatisticas_por_grupo df2_vul [] = Inl (LengthError 0 2)
   \<and> executar gower_iguais uma_comunidade df2_raw = Inl (LengthError 0 2)"
  by code_simp

section \<open>Missing and invalid values in the scoring functions\<close>

text \<open>
  Claim C3, as stated, fails: \<open>pontos_despesas\<close> answers a missing expenses or income
  value with 10, not 0, and a text in a numeric argument makes \<open>pontos_renda\<close> and
  \<open>pontos_bens\<close> raise \<open>TypeError\<close>.
\<close>

theorem pontos_ausente_counterexample:
  "pontos_despesas NaN (Num 100) = Inr 10
   \<and> pontos_despesas (Num 100) NaN = Inr 10
   \<and> pontos_renda (Str ''abc'') = Inl TypeError
   \<and> pontos_bens (Str ''abc'') = Inl TypeError"
  by (simp add: pontos_despesas_def pontos_renda_def pontos_bens_def isna_def)

text \<open>
  Claim C3, amended. A missing value scores 0 in \<open>pontos_renda\<close> and \<open>pontos_bens\<close> (both
  variants) and any value that is not a text scores 0 in \<open>pontos_moradia\<close>, none of
  them raising. \<open>pontos_despesas\<close> returns 10, without raising, when expenses or income
  is missing or income is 0. A text in a numeric argument is not defaulted:
  \<open>pontos_renda\<close> and \<open>pontos_bens\<close> raise \<open>TypeError\<close> on it.
\<close>

theorem pontos_valor_ausente:
  "pontos_renda NaN = Inr 0 \<and> pontos_bens NaN = Inr 0
   \<and> pontos_renda_leiden NaN = Inr 0 \<and> pontos_bens_leiden NaN = Inr 0
   \<and> (\<not> isinstance_str m \<longrightarrow> pontos_moradia m = 0)
   \<and> (isna dp \<or> isna rp \<or> eq_zero rp \<longrightarrow> pontos_despesas dp rp = Inr 10)
   \<and> pontos_renda (Str s) = Inl TypeError \<and> pontos_bens (Str s) = Inl TypeError"
  by (cases m)
    (simp_all add: pontos_renda_def pontos_bens_def pontos_renda_leiden_def
      pontos_bens_leiden_def pontos_moradia_def isinstance_str_def pontos_despesas_def)

theorem pontos_valor_ausente_witness:
  "\<not> isinstance_str (Num 3) \<and> pontos_moradia (Num 3) = 0
   \<and> isna NaN \<and> pontos_despesas NaN (Num 100) = Inr 10
   \<and> pontos_renda NaN = Inr 0 \<and> pontos_bens NaN = Inr 0"
  using pontos_valor_ausente [of "Num 3" NaN "Num 100" "''abc''"]
  by (simp add: isinstance_str_def isna_def)

section \<open>The vulnerability index of the Leiden variant\<close>

lemma pontos_renda_leiden_range: "pontos_renda_leiden r = Inr p \<Longrightarrow> 0 \<le> p \<and> p \<le> 40"
  by (auto simp: pontos_renda_leiden_def split: cell.splits if_splits)

lemma pontos_moradia_leiden_range:
  "0 \<le> pontos_moradia_leiden u a f \<and> pontos_moradia_leiden u a f \<le> 15"
  by (simp add: pontos_moradia_leiden_def Let_def)

lemma pontos_procedencia_range: "0 \<le> pontos_procedencia u e \<and> pontos_procedencia u e \<le> 10"
  by (simp add: pontos_procedencia_def Let_def split: cell.splits)

lemma pontos_bens_leiden_range: "pontos_bens_leiden v = Inr p \<Longrightarrow> 0 \<le> p \<and> p \<le> 15"
  by (auto simp: pontos_bens_leiden_def split: cell.splits if_splits)

lemma pontos_savs_range: "pontos_savs u ns row = Inr p \<Longrightarrow> 0 \<le> p \<and> p \<le> 20"
  by (auto simp: pontos_savs_def bind_err_def Let_def split: sum.splits)

lemma pontuar_parts:
  "pontuar u ns row = Inr s \<Longrightarrow>
     \<exists>r a f e v p1 p4 p5. pontos_renda_leiden r = Inr p1 \<and> pontos_bens_leiden v = Inr p4
        \<and> pontos_savs u ns row = Inr p5
        \<and> s = p1 + pontos_moradia_leiden u a f + pontos_procedencia u e + p4 + p5"
  unfolding pontuar_def bind_err_def
  by (simp split: sum.splits) blast

lemma pontuar_range:
  assumes "pontuar u ns row = Inr s"
  shows "0 \<le> s \<and> s \<le> 100"
proof -
  from pontuar_parts [OF assms] obtain r a f e v p1 p4 p5 where
    a: "pontos_renda_leiden r = Inr p1" and b: "pontos_bens_leiden v = Inr p4"
    and c: "pontos_savs u ns row = Inr p5"
    and s: "s = p1 + pontos_moradia_leiden u a f + pontos_procedencia u e + p4 + p5"
    by blast
  from pontos_renda_leiden_range [OF a] pontos_bens_leiden_range [OF b] pontos_savs_range [OF c]
    pontos_moradia_leiden_range [of u a f] pontos_procedencia_range [of u e] s
  show ?thesis by linarith
qed

lemma apply_rows_Inr:
  "apply_rows f rs = Inr xs \<Longrightarrow>
     length xs = length rs \<and> (\<forall>i < length rs. f (rs ! i) = Inr (xs ! i))"
proof (induction rs arbitrary: xs)
  case Nil
  then show ?case by simp
next
  case (Cons r rs)
  from Cons.prems obtain y ys where y: "f r = Inr y" and ys: "apply_rows f rs = Inr ys"
    and xs: "xs = y # ys"
    by (auto simp: bind_err_def split: sum.splits)
  from Cons.IH [OF ys] y xs show ?case
    by (auto simp: nth_Cons split: nat.splits)
qed





section \<open>Columns of a data frame\<close>

lemma map_of_zip_update:
  "length r = length cols \<Longrightarrow> c \<in> set cols \<Longrightarrow>
     map_of (zip cols (r[first_index c cols := v])) c'
       = (if c' = c then Some v else map_of (zip cols r) c')"
proof (induction cols arbitrary: r)
  case Nil
  then show ?case by simp
next
  case (Cons a cols)
  then obtain x xs where r: "r = x # xs" by (cases r) auto
  with Cons show ?case by auto
qed

lemma cell_at_update:
  "length r = length cols \<Longrightarrow> c \<in> set cols \<Longrightarrow>
     cell_at cols (r[first_index c cols := v]) c'
       = (if c' = c then v else cell_at cols r c')"
  by (simp add: cell_at_def get_default_def map_of_zip_update)

lemma map_of_zip_snoc:
  assumes "length r = length cols" "c \<notin> set cols"
  shows "map_of (zip (cols @ [c]) (r @ [v])) c'
       = (if c' = c then Some v else map_of (zip cols r) c')"
proof -
  have none: "map_of (zip cols r) c = None"
    using assms by (auto simp: map_of_eq_None_iff dest: set_zip_leftD)
  have "map_of (zip (cols @ [c]) (r @ [v])) c' = (map_of [(c, v)] ++ map_of (zip cols r)) c'"
    using assms(1) by (simp add: map_of_append [symmetric])
  also have "\<dots> = (if c' = c then Some v else map_of (zip cols r) c')"
    using none by (auto simp: map_add_def split: option.splits)
  finally show ?thesis .
qed

lemma cell_at_snoc:
  assumes "length r = length cols" "c \<notin> set cols"
  shows "cell_at (cols @ [c]) (r @ [v]) c' = (if c' = c then v else cell_at cols r c')"
  unfolding cell_at_def get_default_def map_of_zip_snoc [OF assms] by simp

lemma wf_dataframe_nth:
  "wf_dataframe df \<Longrightarrow> i < length (rows df) \<Longrightarrow> length (rows df ! i) = length (columns df)"
  by (simp add: wf_dataframe_def list_all_length)

text \<open>After \<open>df[name] = vals\<close> the column \<open>name\<close> holds \<open>vals\<close>, row by row, and every
  other column is as before.\<close>

lemma assign_column_cells:
  assumes wf: "wf_dataframe df" and a: "assign_column df name vals = Inr df'"
  shows "length (rows df') = length (rows df) \<and> length vals = length (rows df)
     \<and> (\<forall>i < length (rows df). \<forall>c. cell_at (columns df') (rows df' ! i) c
          = (if c = name then vals ! i else cell_at (columns df) (rows df ! i) c))"
proof -
  from a have len: "length vals = length (rows df)"
    by (auto simp: assign_column_def split: if_splits)
  show ?thesis
  proof (cases "name \<in> set (columns df)")
    case True
    with a len have df': "df' = df\<lparr>rows := map2 (\<lambda>r v. r[first_index name (columns df) := v])
        (rows df) vals\<rparr>"
      by (simp add: assign_column_def)
    show ?thesis
      using len True wf_dataframe_nth [OF wf]
      by (simp add: df' cell_at_update)
  next
    case False
    with a len have df': "df' = df\<lparr>columns := columns df @ [name],
        rows := map2 (\<lambda>r v. r @ [v]) (rows df) vals\<rparr>"
      by (simp add: assign_column_def)
    show ?thesis
      using len False wf_dataframe_nth [OF wf]
      by (simp add: df' cell_at_snoc)
  qed
qed

section \<open>The index column\<close>

lemma calcular_indice_cells:
  assumes wf: "wf_dataframe df" and c: "calcular_indice_vulnerabilidade df = Inr df'"
    and i: "i < length (rows df)"
  shows "length (rows df') = length (rows df)
     \<and> (\<exists>s. indice_linha (as_series df (rows df ! i)) = Inr s
            \<and> cell_at (columns df') (rows df' ! i) COL_INDICE = Num (of_int s))"
proof -
  from c obtain idx where
    ap: "apply_rows indice_linha (map (as_series df) (rows df)) = Inr idx"
    and as: "assign_column df COL_INDICE (map (\<lambda>i. Num (of_int i)) idx) = Inr df'"
    by (auto simp: calcular_indice_vulnerabilidade_def bind_err_def split: sum.splits)
  from apply_rows_Inr [OF ap] i have
    li: "length idx = length (rows df)"
    and s: "indice_linha (as_series df (rows df ! i)) = Inr (idx ! i)"
    by auto
  from assign_column_cells [OF wf as] i li s show ?thesis by auto
qed

lemma calcular_indice_leiden_cells:
  assumes wf: "wf_dataframe df"
    and c: "calcular_indice_vulnerabilidade_leiden u ns df = Inr df'"
    and i: "i < length (rows df)"
  shows "length (rows df') = length (rows df)
     \<and> (\<exists>s. pontuar u ns (as_series df (rows df ! i)) = Inr s
            \<and> cell_at (columns df') (rows df' ! i) L_INDICE = Num (of_int (clip_upper 100 s)))"
proof -
  from c obtain raw where
    ap: "apply_rows (pontuar u ns) (map (as_series df) (rows df)) = Inr raw"
    and as: "assign_column df L_INDICE (map (\<lambda>i. Num (of_int (clip_upper 100 i))) raw) = Inr df'"
    by (auto simp: calcular_indice_vulnerabilidade_leiden_def bind_err_def split: sum.splits)
  from apply_rows_Inr [OF ap] i have
    li: "length raw = length (rows df)"
    and s: "pontuar u ns (as_series df (rows df ! i)) = Inr (raw ! i)"
    by auto
  from assign_column_cells [OF wf as] i li s show ?thesis by auto
qed

lemma calc_leiden:
  "calcular_indice_vulnerabilidade_leiden sem_acentos num_zero df_leiden = Inr df_leiden_vul"
  by code_simp

lemma wf_exemplos: "wf_dataframe df3_raw \<and> wf_dataframe df_leiden"
  by code_simp

lemma cells_exemplos:
  "cell_at (columns df3_vul) (rows df3_vul ! 1) COL_INDICE = Num 50
   \<and> cell_at (columns df_leiden_vul) (rows df_leiden_vul ! 0) L_INDICE = Num 100
   \<and> length (rows df3_raw) = 3 \<and> length (rows df_leiden) = 1"
  by code_simp

text \<open>
  Claim C9. In the Fast Greedy variant the index that \<open>calcular_indice_vulnerabilidade\<close>
  writes for a respondent, in the column \<open>Indice Vulnerabilidade\<close>, is the sum computed
  from that respondent's row and lies between 0 and 80, because the income, housing,
  expenses and assets scores lie in 0..40, 0..15, 0..10 and 0..15; no cap is applied.
\<close>

theorem indice_fastgreedy_limites:
  "(wf_dataframe df \<and> calcular_indice_vulnerabilidade df = Inr df' \<and> i < length (rows df)
      \<longrightarrow>
      length (rows df') = length (rows df)
      \<and> (\<exists>s. indice_linha (as_series df (rows df ! i)) = Inr s
              \<and> cell_at (columns df') (rows df' ! i) COL_INDICE = Num (of_int s)
              \<and> 0 \<le> s \<and> s \<le> 80))
   \<and> (indice_linha row = Inr s \<longrightarrow> 0 \<le> s \<and> s \<le> 80)
   \<and> (pontos_renda r = Inr p1 \<longrightarrow> 0 \<le> p1 \<and> p1 \<le> 40)
   \<and> (0 \<le> pontos_moradia m \<and> pontos_moradia m \<le> 15)
   \<and> (pontos_despesas dp rp = Inr p3 \<longrightarrow> 0 \<le> p3 \<and> p3 \<le> 10)
   \<and> (pontos_bens v = Inr p4 \<longrightarrow> 0 \<le> p4 \<and> p4 \<le> 15)"
proof -
  have col: "length (rows df') = length (rows df)
      \<and> (\<exists>s. indice_linha (as_series df (rows df ! i)) = Inr s
              \<and> cell_at (columns df') (rows df' ! i) COL_INDICE = Num (of_int s)
              \<and> 0 \<le> s \<and> s \<le> 80)"
    if h: "wf_dataframe df" "calcular_indice_vulnerabilidade df = Inr df'" "i < length (rows df)"
  proof -
    from calcular_indice_cells [OF h] obtain t where
      l: "length (rows df') = length (rows df)"
      and t: "indice_linha (as_series df (rows df ! i)) = Inr t"
      and v: "cell_at (columns df') (rows df' ! i) COL_INDICE = Num (of_int t)"
      by blast
    from indice_linha_range [OF t] l t v show ?thesis by blast
  qed
  show ?thesis
    using col indice_linha_range [of row s] pontos_renda_range [of r p1]
      pontos_moradia_range [of m] pontos_despesas_range [of dp rp p3]
      pontos_bens_range [of v p4]
    by blast
qed

lemma linha_df3: "indice_linha (as_series df3_raw (rows df3_raw ! 1)) = Inr 50"
  by code_simp

theorem indice_fastgreedy_limites_witness:
  "wf_dataframe df3_raw \<and> calcular_indice_vulnerabilidade df3_raw = Inr df3_vul
   \<and> 1 < length (rows df3_raw)
   \<and> length (rows df3_vul) = length (rows df3_raw)
   \<and> indice_linha (as_series df3_raw (rows df3_raw ! 1)) = Inr 50
   \<and> cell_at (columns df3_vul) (rows df3_vul ! 1) COL_INDICE = Num 50
   \<and> (0::int) \<le> 50 \<and> (50::int) \<le> 80
   \<and> indice_linha linha_exemplo = Inr 52 \<and> (0::int) \<le> 52 \<and> (52::int) \<le> 80
   \<and> pontos_renda (Num 1000) = Inr 30 \<and> pontos_despesas (Num 1600) (Num 1000) = Inr 7
   \<and> pontos_bens (Num 5000) = Inr 10"
proof -
  have w: "wf_dataframe df3_raw" using wf_exemplos by simp
  have l: "1 < length (rows df3_raw)" "length (rows df3_vul) = length (rows df3_raw)"
    by code_simp+
  from indice_fastgreedy_limites [where df = df3_raw and df' = df3_vul and i = 1
      and row = linha_exemplo and s = 52 and r = "Num 1000" and ?p1.0 = 30
      and m = "Str ''quitada''" and dp = "Num 1600" and rp = "Num 1000" and ?p3.0 = 7
      and v = "Num 5000" and ?p4.0 = 10]
    w l calc3 linha_df3 cells_exemplos indice_linha_exemplo partes_exemplo
  show ?thesis by simp
qed

text \<open>
  Claim C7. For every respondent the index written by
  \<open>calcular_indice_vulnerabilidade\<close> is at least 0, and in the Leiden variant, which
  clips the column at 100, it is also at most 100. (In both variants the call either
  raises and writes nothing, or writes an index for every row.)
\<close>

theorem indice_nao_negativo_e_limitado:
  assumes "wf_dataframe df" "i < length (rows df)"
  shows "(calcular_indice_vulnerabilidade df = Inr df' \<longrightarrow>
            length (rows df') = length (rows df)
            \<and> (\<exists>s. cell_at (columns df') (rows df' ! i) COL_INDICE = Num (of_int s) \<and> 0 \<le> s))
       \<and> (calcular_indice_vulnerabilidade_leiden u ns df = Inr df'' \<longrightarrow>
            length (rows df'') = length (rows df)
            \<and> (\<exists>s. cell_at (columns df'') (rows df'' ! i) L_INDICE = Num (of_int s)
                  \<and> 0 \<le> s \<and> s \<le> 100))"
proof (intro conjI impI)
  assume c: "calcular_indice_vulnerabilidade df = Inr df'"
  from calcular_indice_cells [OF assms(1) c assms(2)]
  show "length (rows df') = length (rows df)" by simp
  from calcular_indice_cells [OF assms(1) c assms(2)] obtain s where
    s: "indice_linha (as_series df (rows df ! i)) = Inr s"
    and v: "cell_at (columns df') (rows df' ! i) COL_INDICE = Num (of_int s)"
    by blast
  from indice_linha_range [OF s] v
  show "\<exists>s. cell_at (columns df') (rows df' ! i) COL_INDICE = Num (of_int s) \<and> 0 \<le> s"
    by blast
next
  assume c: "calcular_indice_vulnerabilidade_leiden u ns df = Inr df''"
  from calcular_indice_leiden_cells [OF assms(1) c assms(2)]
  show "length (rows df'') = length (rows df)" by simp
  from calcular_indice_leiden_cells [OF assms(1) c assms(2)] obtain s where
    s: "pontuar u ns (as_series df (rows df ! i)) = Inr s"
    and v: "cell_at (columns df'') (rows df'' ! i) L_INDICE = Num (of_int (clip_upper 100 s))"
    by blast
  from pontuar_range [OF s] have "0 \<le> clip_upper 100 s \<and> clip_upper 100 s \<le> 100"
    by (simp add: clip_upper_def)
  with v
  show "\<exists>s. cell_at (columns df'') (rows df'' ! i) L_INDICE = Num (of_int s)
          \<and> 0 \<le> s \<and> s \<le> 100"
    by blast
qed

theorem indice_nao_negativo_e_limitado_witness:
  "wf_dataframe df3_raw \<and> 1 < length (rows df3_raw)
   \<and> calcular_indice_vulnerabilidade df3_raw = Inr df3_vul
   \<and> length (rows df3_vul) = length (rows df3_raw)
   \<and> cell_at (columns df3_vul) (rows df3_vul ! 1) COL_INDICE = Num 50 \<and> (0::int) \<le> 50
   \<and> wf_dataframe df_leiden \<and> 0 < length (rows df_leiden)
   \<and> calcular_indice_vulnerabilidade_leiden sem_acentos num_zero df_leiden = Inr df_leiden_vul
   \<and> length (rows df_leiden_vul) = length (rows df_leiden)
   \<and> cell_at (columns df_leiden_vul) (rows df_leiden_vul ! 0) L_INDICE = Num 100
   \<and> (100::int) \<le> 100"
proof -
  have w1: "wf_dataframe df3_raw" and w2: "wf_dataframe df_leiden"
    using wf_exemplos by simp_all
  have i1: "1 < length (rows df3_raw)" and i2: "0 < length (rows df_leiden)"
    using cells_exemplos by simp_all
  from indice_nao_negativo_e_limitado [OF w1 i1, of df3_vul sem_acentos num_zero df3_vul]
    indice_nao_negativo_e_limitado [OF w2 i2, of df_leiden_vul sem_acentos num_zero df_leiden_vul]
    w1 w2 i1 i2 calc3 calc_leiden cells_exemplos
  show ?thesis by simp
qed

section \<open>Loading the sheet\<close>

lemma verificar_colunas_ok: "set cs \<subseteq> set cols \<Longrightarrow> verificar_colunas cs cols = Inr ()"
  by (induction cs) simp_all

lemma verificar_colunas_falta:
  "\<not> set cs \<subseteq> set cols \<Longrightarrow>
     \<exists>c. c \<in> set cs \<and> c \<notin> set cols \<and> verificar_colunas cs cols = Inl (KeyError c)"
  by (induction cs) auto

lemma colunas_criticas_outros:
  "c \<in> set colunas_criticas \<Longrightarrow> c \<in> set colunas \<and> c \<noteq> COL_MORADIA \<and> c \<noteq> COL_TRANSPORTE"
  by (auto simp: colunas_criticas_def colunas_def COL_MORADIA_def COL_TRANSPORTE_def
      COL_RENDA_def COL_DESPESAS_def COL_BENS_def)

lemma cell_at_select:
  "c \<in> set cs \<Longrightarrow> cell_at cs (map (cell_at cols r) cs) c = cell_at cols r c"
  by (simp add: cell_at_def [of cs] get_default_def map_of_zip_map)

lemma carregar_dados_preparado:
  "carregar_dados ns (Inr df) =
     bind_err (verificar_colunas colunas (columns df)) (\<lambda>_.
       if linhas_invalidas (preparado ns df) \<noteq> []
       then Inl (ValueError (linhas_invalidas (preparado ns df)))
       else Inr (preparado ns df))"
proof -
  have n: "colunas ! 0 = COL_MORADIA" "colunas ! 1 = COL_TRANSPORTE"
    by (simp_all add: colunas_def)
  show ?thesis
    unfolding carregar_dados_def n preparado_def by (simp add: Let_def)
qed

text \<open>The critical cells of the prepared frame are those of the sheet.\<close>

lemma preparado_cells:
  assumes "c \<in> set colunas_criticas" "i < length (rows df)"
  shows "cell_at (columns (preparado ns df)) (rows (preparado ns df) ! i) c
         = cell_at (columns df) (rows df ! i) c"
proof -
  have c: "c \<in> set colunas" "c \<noteq> COL_MORADIA" "c \<noteq> COL_TRANSPORTE"
    using colunas_criticas_outros [OF assms(1)] by simp_all
  have m: "COL_MORADIA \<in> set colunas" "COL_TRANSPORTE \<in> set colunas"
    by (simp_all add: colunas_def)
  show ?thesis
    using assms(2) c m
    by (simp add: preparado_def strip_column_def select_columns_def cell_at_update
        cell_at_select)
qed

lemma preparado_length: "length (rows (preparado ns df)) = length (rows df)"
  by (simp add: preparado_def strip_column_def select_columns_def)

lemma set_linhas_invalidas:
  "set (linhas_invalidas df)
     = {i. i < length (rows df)
           \<and> (\<exists>c \<in> set colunas_criticas. isna (cell_at (columns df) (rows df ! i) c))}"
  by (auto simp: linhas_invalidas_def invalidos_def)

lemma carregar_dados_falta_coluna:
  assumes "c \<in> set colunas" "c \<notin> set (columns df)"
  shows "\<exists>c'. c' \<in> set colunas \<and> c' \<notin> set (columns df)
           \<and> carregar_dados ns (Inr df) = Inl (KeyError c')"
proof -
  from assms have "\<not> set colunas \<subseteq> set (columns df)" by auto
  from verificar_colunas_falta [OF this] show ?thesis
    by (auto simp: carregar_dados_preparado bind_err_def)
qed

lemma carregar_dados_valor_ausente:
  assumes "set colunas \<subseteq> set (columns df)" "i < length (rows df)"
    "c \<in> set colunas_criticas" "isna (cell_at (columns df) (rows df ! i) c)"
  shows "\<exists>ls. i \<in> set ls \<and> carregar_dados ns (Inr df) = Inl (ValueError ls)"
proof -
  have "isna (cell_at (columns (preparado ns df)) (rows (preparado ns df) ! i) c)"
    using preparado_cells [OF assms(3) assms(2), of ns] assms(4) by simp
  with assms(2,3) have i: "i \<in> set (linhas_invalidas (preparado ns df))"
    unfolding set_linhas_invalidas preparado_length by blast
  then have "linhas_invalidas (preparado ns df) \<noteq> []" by auto
  with i show ?thesis
    using verificar_colunas_ok [OF assms(1)]
    by (simp add: carregar_dados_preparado bind_err_def)
qed

lemma carregar_dados_sucesso:
  assumes "carregar_dados ns (Inr df) = Inr df'" "i < length (rows df)"
    "c \<in> set colunas_criticas"
  shows "length (rows df') = length (rows df)
     \<and> \<not> isna (cell_at (columns df') (rows df' ! i) c)
     \<and> cell_at (columns df') (rows df' ! i) c = cell_at (columns df) (rows df ! i) c"
proof -
  from assms(1) have d: "df' = preparado ns df" and e: "linhas_invalidas (preparado ns df) = []"
    by (auto simp: carregar_dados_preparado bind_err_def split: sum.splits if_splits)
  have "i \<notin> set (linhas_invalidas (preparado ns df))" using e by simp
  then have "\<not> isna (cell_at (columns (preparado ns df)) (rows (preparado ns df) ! i) c)"
    unfolding set_linhas_invalidas preparado_length using assms(2,3) by blast
  then show ?thesis
    using preparado_cells [OF assms(3) assms(2), of ns]
    by (simp add: d preparado_length)
qed

lemma coluna_numerica_shape:
  "columns (coluna_numerica p c df) = columns df
   \<and> length (rows (coluna_numerica p c df)) = length (rows df)
   \<and> (wf_dataframe df \<longrightarrow> wf_dataframe (coluna_numerica p c df))"
  by (simp add: coluna_numerica_def wf_dataframe_def list_all_iff)

lemma coluna_numerica_cell:
  assumes "wf_dataframe df" "c \<in> set (columns df)" "i < length (rows df)"
  shows "cell_at (columns df) (rows (coluna_numerica p c df) ! i) c'
     = (if c' = c then fillna0 (to_numeric p (cell_at (columns df) (rows df ! i) c))
        else cell_at (columns df) (rows df ! i) c')"
  using assms wf_dataframe_nth [OF assms(1) assms(3)]
  by (simp add: coluna_numerica_def cell_at_update)

text \<open>The five conversions of the second variant, one after the other: the income cell of
  a row becomes the number it holds, or 0 when it is missing or not a number; the
  respondent's identifier is untouched.\<close>

lemma conversoes_cells:
  assumes wf: "wf_dataframe df" and cs: "set colunas_obrigatorias \<subseteq> set (columns df)"
    and i: "i < length (rows df)"
  shows "cell_at (columns df)
           (rows (coluna_numerica p L_SUPERIOR (coluna_numerica p L_DOENCA (coluna_numerica p L_FILHOS
              (coluna_numerica p L_BENS (coluna_numerica p L_RENDA df))))) ! i) L_RENDA
           = fillna0 (to_numeric p (cell_at (columns df) (rows df ! i) L_RENDA))
       \<and> cell_at (columns df)
           (rows (coluna_numerica p L_SUPERIOR (coluna_numerica p L_DOENCA (coluna_numerica p L_FILHOS
              (coluna_numerica p L_BENS (coluna_numerica p L_RENDA df))))) ! i) L_ID
           = cell_at (columns df) (rows df ! i) L_ID"
proof -
  let ?d1 = "coluna_numerica p L_RENDA df"
  let ?d2 = "coluna_numerica p L_BENS ?d1"
  let ?d3 = "coluna_numerica p L_FILHOS ?d2"
  let ?d4 = "coluna_numerica p L_DOENCA ?d3"
  have mem: "L_RENDA \<in> set (columns df)" "L_BENS \<in> set (columns df)"
    "L_FILHOS \<in> set (columns df)" "L_DOENCA \<in> set (columns df)"
    "L_SUPERIOR \<in> set (columns df)"
    using cs by (auto simp: colunas_obrigatorias_def)
  have ne: "L_RENDA \<noteq> L_BENS" "L_RENDA \<noteq> L_FILHOS" "L_RENDA \<noteq> L_DOENCA"
    "L_RENDA \<noteq> L_SUPERIOR" "L_ID \<noteq> L_RENDA" "L_ID \<noteq> L_BENS" "L_ID \<noteq> L_FILHOS"
    "L_ID \<noteq> L_DOENCA" "L_ID \<noteq> L_SUPERIOR"
    by (simp_all add: L_RENDA_def L_BENS_def L_FILHOS_def L_DOENCA_def L_SUPERIOR_def L_ID_def)
  have w1: "wf_dataframe ?d1" using wf coluna_numerica_shape [of p L_RENDA df] by simp
  have w2: "wf_dataframe ?d2" using w1 coluna_numerica_shape [of p L_BENS ?d1] by simp
  have w3: "wf_dataframe ?d3" using w2 coluna_numerica_shape [of p L_FILHOS ?d2] by simp
  have w4: "wf_dataframe ?d4" using w3 coluna_numerica_shape [of p L_DOENCA ?d3] by simp
  have c1: "columns ?d1 = columns df" "length (rows ?d1) = length (rows df)"
    using coluna_numerica_shape [of p L_RENDA df] by simp_all
  have c2: "columns ?d2 = columns df" "length (rows ?d2) = length (rows df)"
    using coluna_numerica_shape [of p L_BENS ?d1] c1 by simp_all
  have c3: "columns ?d3 = columns df" "length (rows ?d3) = length (rows df)"
    using coluna_numerica_shape [of p L_FILHOS ?d2] c2 by simp_all
  have c4: "columns ?d4 = columns df" "length (rows ?d4) = length (rows df)"
    using coluna_numerica_shape [of p L_DOENCA ?d3] c3 by simp_all
  have s1: "cell_at (columns df) (rows ?d1 ! i) c'
      = (if c' = L_RENDA then fillna0 (to_numeric p (cell_at (columns df) (rows df ! i) L_RENDA))
         else cell_at (columns df) (rows df ! i) c')" for c'
    using coluna_numerica_cell [OF wf mem(1) i] by simp
  have s2: "c' \<noteq> L_BENS \<Longrightarrow> cell_at (columns df) (rows ?d2 ! i) c'
      = cell_at (columns df) (rows ?d1 ! i) c'" for c'
    using coluna_numerica_cell [OF w1, of L_BENS i p c'] mem(2) i c1 by simp
  have s3: "c' \<noteq> L_FILHOS \<Longrightarrow> cell_at (columns df) (rows ?d3 ! i) c'
      = cell_at (columns df) (rows ?d2 ! i) c'" for c'
    using coluna_numerica_cell [OF w2, of L_FILHOS i p c'] mem(3) i c2 by simp
  have s4: "c' \<noteq> L_DOENCA \<Longrightarrow> cell_at (columns df) (rows ?d4 ! i) c'
      = cell_at (columns df) (rows ?d3 ! i) c'" for c'
    using coluna_numerica_cell [OF w3, of L_DOENCA i p c'] mem(4) i c3 by simp
  have s5: "c' \<noteq> L_SUPERIOR \<Longrightarrow>
      cell_at (columns df) (rows (coluna_numerica p L_SUPERIOR ?d4) ! i) c'
      = cell_at (columns df) (rows ?d4 ! i) c'" for c'
    using coluna_numerica_cell [OF w4, of L_SUPERIOR i p c'] mem(5) i c4 by simp
  show ?thesis
    using ne by (simp add: s1 s2 s3 s4 s5)
qed

lemma conversoes_shape:
  "columns (coluna_numerica p L_SUPERIOR (coluna_numerica p L_DOENCA (coluna_numerica p L_FILHOS
      (coluna_numerica p L_BENS (coluna_numerica p L_RENDA df))))) = columns df
   \<and> length (rows (coluna_numerica p L_SUPERIOR (coluna_numerica p L_DOENCA (coluna_numerica p L_FILHOS
      (coluna_numerica p L_BENS (coluna_numerica p L_RENDA df)))))) = length (rows df)"
  by (simp add: coluna_numerica_shape)

lemma normalizar_cabecalhos_nao_texto:
  "h \<in> set hs \<Longrightarrow> \<not> isinstance_str h \<Longrightarrow> normalizar_cabecalhos u hs = Inl AttributeError"
proof (induction hs)
  case Nil
  then show ?case by simp
next
  case (Cons a hs)
  show ?case
  proof (cases a)
    case (Str col)
    with Cons show ?thesis by (auto simp: isinstance_str_def bind_err_def)
  qed simp_all
qed

lemma count_list_distinct: "distinct xs \<Longrightarrow> x \<in> set xs \<Longrightarrow> count_list xs x = 1"
  by (induction xs) auto

lemma converter_unico:
  assumes "distinct (columns df)" "c \<in> set (columns df)"
  shows "converter p c df = Inr (coluna_numerica p c df)"
proof -
  from assms have "count_list (columns df) c = 1"
    by (rule count_list_distinct)
  then show ?thesis by (simp add: converter_def)
qed

lemma converter_repetido:
  "c \<in> set (columns df) \<Longrightarrow> count_list (columns df) c \<noteq> 1 \<Longrightarrow> converter p c df = Inl TypeError"
  by (simp add: converter_def)

lemma numericas_obrigatorias:
  assumes "set colunas_obrigatorias \<subseteq> set cols"
  shows "L_RENDA \<in> set cols" "L_BENS \<in> set cols" "L_FILHOS \<in> set cols"
    "L_DOENCA \<in> set cols" "L_SUPERIOR \<in> set cols"
  using assms by (auto simp: colunas_obrigatorias_def)

text \<open>With headers that are texts and stay distinct under the renaming, and every required
  column present, the second variant loads the sheet: the five conversions, then the
  income filter.\<close>

lemma carregar_dados_leiden_forma:
  assumes n: "normalizar_cabecalhos u (cabecalhos sh) = Inr N"
    and d: "distinct N" and cs: "set colunas_obrigatorias \<subseteq> set N"
  shows "carregar_dados_leiden u p (Inr sh)
     = Inr ((coluna_numerica p L_SUPERIOR (coluna_numerica p L_DOENCA (coluna_numerica p L_FILHOS
              (coluna_numerica p L_BENS (coluna_numerica p L_RENDA
                 \<lparr>columns = N, rows = linhas sh\<rparr>)))))
            \<lparr>rows := filter (\<lambda>r. le_num (cell_at N r L_RENDA) ((3 / 2) * SALARIO_MINIMO))
               (rows (coluna_numerica p L_SUPERIOR (coluna_numerica p L_DOENCA
                  (coluna_numerica p L_FILHOS (coluna_numerica p L_BENS
                     (coluna_numerica p L_RENDA \<lparr>columns = N, rows = linhas sh\<rparr>))))))\<rparr>)"
proof -
  let ?d0 = "\<lparr>columns = N, rows = linhas sh\<rparr>"
  let ?d1 = "coluna_numerica p L_RENDA ?d0"
  let ?d2 = "coluna_numerica p L_BENS ?d1"
  let ?d3 = "coluna_numerica p L_FILHOS ?d2"
  let ?d4 = "coluna_numerica p L_DOENCA ?d3"
  let ?d5 = "coluna_numerica p L_SUPERIOR ?d4"
  note mem = numericas_obrigatorias [OF cs]
  have c1: "columns ?d1 = N" using coluna_numerica_shape [of p L_RENDA ?d0] by simp
  have c2: "columns ?d2 = N" using coluna_numerica_shape [of p L_BENS ?d1] c1 by simp
  have c3: "columns ?d3 = N" using coluna_numerica_shape [of p L_FILHOS ?d2] c2 by simp
  have c4: "columns ?d4 = N" using coluna_numerica_shape [of p L_DOENCA ?d3] c3 by simp
  have c5: "columns ?d5 = N" using coluna_numerica_shape [of p L_SUPERIOR ?d4] c4 by simp
  have k1: "converter p L_RENDA ?d0 = Inr ?d1"
    by (rule converter_unico) (simp_all add: d mem)
  have k2: "converter p L_BENS ?d1 = Inr ?d2"
    by (rule converter_unico) (simp_all only: c1 d mem)
  have k3: "converter p L_FILHOS ?d2 = Inr ?d3"
    by (rule converter_unico) (simp_all only: c2 d mem)
  have k4: "converter p L_DOENCA ?d3 = Inr ?d4"
    by (rule converter_unico) (simp_all only: c3 d mem)
  have k5: "converter p L_SUPERIOR ?d4 = Inr ?d5"
    by (rule converter_unico) (simp_all only: c4 d mem)
  have v: "verificar_colunas colunas_obrigatorias N = Inr ()"
    by (rule verificar_colunas_ok [OF cs])
  show ?thesis
    unfolding carregar_dados_leiden_def
    by (simp only: bind_err_def sum.case n Let_def dataframe.select_convs v k1 k2 k3 k4 k5 c5)
qed

lemma carregar_dados_leiden_falta_coluna:
  assumes "normalizar_cabecalhos u (cabecalhos sh) = Inr N"
    "c \<in> set colunas_obrigatorias" "c \<notin> set N"
  shows "\<exists>c'. c' \<in> set colunas_obrigatorias \<and> c' \<notin> set N
           \<and> carregar_dados_leiden u p (Inr sh) = Inl (KeyError c')"
proof -
  from assms(2,3) have "\<not> set colunas_obrigatorias \<subseteq> set N" by auto
  from verificar_colunas_falta [OF this] show ?thesis
    by (auto simp: carregar_dados_leiden_def bind_err_def Let_def assms(1))
qed

text \<open>A header that is not a text, or an income header that the renaming duplicates, makes
  the second variant raise.\<close>

lemma carregar_dados_leiden_cabecalho:
  "h \<in> set (cabecalhos sh) \<Longrightarrow> \<not> isinstance_str h \<Longrightarrow>
     carregar_dados_leiden u p (Inr sh) = Inl AttributeError"
  by (simp add: carregar_dados_leiden_def bind_err_def normalizar_cabecalhos_nao_texto)

lemma carregar_dados_leiden_colisao:
  assumes "normalizar_cabecalhos u (cabecalhos sh) = Inr N"
    "set colunas_obrigatorias \<subseteq> set N" "count_list N L_RENDA \<noteq> 1"
  shows "carregar_dados_leiden u p (Inr sh) = Inl TypeError"
  using verificar_colunas_ok [OF assms(2)] numericas_obrigatorias(1) [OF assms(2)] assms(3)
  by (simp add: carregar_dados_leiden_def bind_err_def Let_def assms(1) converter_repetido)

text \<open>The second variant does not raise on a missing income: the respondent is kept,
  with income 0.\<close>

lemma carregar_dados_leiden_valor_ausente:
  assumes n: "normalizar_cabecalhos u (cabecalhos sh) = Inr N"
    and d: "distinct N"
    and wf: "wf_dataframe \<lparr>columns = N, rows = linhas sh\<rparr>"
    and cs: "set colunas_obrigatorias \<subseteq> set N"
    and i: "i < length (linhas sh)"
    and na: "isna (cell_at N (linhas sh ! i) L_RENDA)"
  shows "\<exists>df'. carregar_dados_leiden u p (Inr sh) = Inr df'
           \<and> (\<exists>r' \<in> set (rows df').
                 cell_at (columns df') r' L_RENDA = Num 0
                 \<and> cell_at (columns df') r' L_ID = cell_at N (linhas sh ! i) L_ID)"
proof -
  let ?dn = "\<lparr>columns = N, rows = linhas sh\<rparr>"
  let ?d5 = "coluna_numerica p L_SUPERIOR (coluna_numerica p L_DOENCA (coluna_numerica p L_FILHOS
      (coluna_numerica p L_BENS (coluna_numerica p L_RENDA ?dn))))"
  let ?keep = "\<lambda>r. le_num (cell_at N r L_RENDA) ((3 / 2) * SALARIO_MINIMO)"
  let ?df' = "?d5\<lparr>rows := filter ?keep (rows ?d5)\<rparr>"
  have csn: "set colunas_obrigatorias \<subseteq> set (columns ?dn)" using cs by simp
  have "in": "i < length (rows ?dn)" using i by simp
  have cols: "columns ?d5 = N" and len: "length (rows ?d5) = length (linhas sh)"
    using conversoes_shape [of p ?dn] by simp_all
  from conversoes_cells [OF wf csn "in", of p] na
  have r: "cell_at N (rows ?d5 ! i) L_RENDA = Num 0"
    and e: "cell_at N (rows ?d5 ! i) L_ID = cell_at N (linhas sh ! i) L_ID"
    by (simp_all add: fillna0_def to_numeric_def isna_def split: cell.splits)
  have mem: "rows ?d5 ! i \<in> set (rows ?d5)" using i len by simp
  have keep: "?keep (rows ?d5 ! i)"
    by (simp add: r le_num_def SALARIO_MINIMO_def)
  have res: "carregar_dados_leiden u p (Inr sh) = Inr ?df'"
    by (rule carregar_dados_leiden_forma [OF n d cs])
  have "rows ?d5 ! i \<in> set (rows ?df')" using mem keep by simp
  moreover have "cell_at (columns ?df') (rows ?d5 ! i) L_RENDA = Num 0"
    using r cols by simp
  moreover have "cell_at (columns ?df') (rows ?d5 ! i) L_ID = cell_at N (linhas sh ! i) L_ID"
    using e cols by simp
  ultimately show ?thesis using res by blast
qed

lemma cabecalhos_exemplos:
  "normalizar_cabecalhos sem_acentos (cabecalhos planilha_ausente) = Inr (columns df_leiden_ausente)
   \<and> \<lparr>columns = columns df_leiden_ausente, rows = linhas planilha_ausente\<rparr> = df_leiden_ausente
   \<and> normalizar_cabecalhos sem_acentos (cabecalhos planilha_sem_coluna) = Inr [L_ID]
   \<and> normalizar_cabecalhos sem_acentos (cabecalhos planilha_colisao)
       = Inr (columns df_leiden_ausente @ [L_RENDA])"
  by code_simp

lemma colunas_presentes:
  "verificar_colunas colunas_obrigatorias (columns df_leiden_ausente) = Inr ()
   \<and> distinct (columns df_leiden_ausente)
   \<and> set colunas_obrigatorias \<subseteq> set (columns df_leiden_ausente)
   \<and> set colunas_obrigatorias \<subseteq> set (columns df_leiden_ausente @ [L_RENDA])
   \<and> count_list (columns df_leiden_ausente @ [L_RENDA]) L_RENDA = 2"
  by code_simp

lemma conversoes_exemplo:
  "converter nao_numero L_RENDA df_leiden_ausente = Inr df_leiden_zero
   \<and> converter nao_numero L_BENS df_leiden_zero = Inr df_leiden_zero
   \<and> converter nao_numero L_FILHOS df_leiden_zero = Inr df_leiden_zero
   \<and> converter nao_numero L_DOENCA df_leiden_zero = Inr df_leiden_zero
   \<and> converter nao_numero L_SUPERIOR df_leiden_zero = Inr df_leiden_zero"
  by code_simp

lemma filtro_exemplo:
  "df_leiden_zero\<lparr>rows := filter (\<lambda>r. le_num (cell_at (columns df_leiden_zero) r L_RENDA)
      2277) (rows df_leiden_zero)\<rparr> = df_leiden_zero"
  by code_simp

lemma carregar_leiden_ausente:
  "carregar_dados_leiden sem_acentos nao_numero (Inr planilha_ausente) = Inr df_leiden_zero"
  by (simp add: carregar_dados_leiden_def bind_err_def Let_def cabecalhos_exemplos
      colunas_presentes conversoes_exemplo SALARIO_MINIMO_def filtro_exemplo)

lemma celulas_leiden_exemplo:
  "isna (cell_at (columns df_leiden_ausente) (linhas planilha_ausente ! 0) L_RENDA)
   \<and> cell_at (columns df_leiden_zero) (rows df_leiden_zero ! 0) L_RENDA = Num 0
   \<and> cell_at (columns df_leiden_zero) (rows df_leiden_zero ! 0) L_ID = Num 7
   \<and> wf_dataframe \<lparr>columns = columns df_leiden_ausente, rows = linhas planilha_ausente\<rparr>
   \<and> 0 < length (linhas planilha_ausente)"
  by code_simp

text \<open>The two failures of the second variant on its headers, on the example sheets.\<close>

lemma carregar_leiden_colisao_exemplo:
  "carregar_dados_leiden sem_acentos nao_numero (Inr planilha_colisao) = Inl TypeError"
proof -
  have n: "normalizar_cabecalhos sem_acentos (cabecalhos planilha_colisao)
      = Inr (columns df_leiden_ausente @ [L_RENDA])"
    using cabecalhos_exemplos by simp
  have s: "set colunas_obrigatorias \<subseteq> set (columns df_leiden_ausente @ [L_RENDA])"
    using colunas_presentes by blast
  have c: "count_list (columns df_leiden_ausente @ [L_RENDA]) L_RENDA \<noteq> 1"
    using colunas_presentes by simp
  show ?thesis by (rule carregar_dados_leiden_colisao [OF n s c])
qed

lemma carregar_leiden_cabecalho_exemplo:
  "carregar_dados_leiden sem_acentos nao_numero (Inr planilha_cabecalho_numero)
     = Inl AttributeError"
  by (rule carregar_dados_leiden_cabecalho [of "Num 2018"])
    (simp_all add: planilha_cabecalho_numero_def isinstance_str_def)

text \<open>
  Claim C4, as stated, fails for the second variant: a respondent whose income is
  missing is loaded without any error, the missing income replaced by 0.
\<close>

theorem carregar_dados_leiden_counterexample:
  "isna (cell_at (columns df_leiden_ausente) (linhas planilha_ausente ! 0) L_RENDA)
   \<and> carregar_dados_leiden sem_acentos nao_numero (Inr planilha_ausente) = Inr df_leiden_zero
   \<and> cell_at (columns df_leiden_zero) (rows df_leiden_zero ! 0) L_RENDA = Num 0"
  using carregar_leiden_ausente celulas_leiden_exemplo by simp

text \<open>
  Claim C4, amended. Both variants raise \<open>KeyError\<close>, returning no data, when a required
  column is absent (in the second variant: absent among the renamed headers). The first
  variant raises \<open>ValueError\<close>, listing the row, when a critical numeric column holds a
  missing value, and what it returns otherwise has every row of the sheet with its
  critical cells unchanged and none of them missing. The second variant, on a sheet
  whose headers are texts that stay distinct under the renaming, does not raise on a
  missing income: it keeps the respondent with income 0.
\<close>

theorem carregar_dados_validacao:
  "(c \<in> set colunas \<and> c \<notin> set (columns df) \<longrightarrow>
      (\<exists>c'. c' \<in> set colunas \<and> c' \<notin> set (columns df)
         \<and> carregar_dados ns (Inr df) = Inl (KeyError c')))
   \<and> (set colunas \<subseteq> set (columns df) \<and> i < length (rows df) \<and> k \<in> set colunas_criticas
        \<and> isna (cell_at (columns df) (rows df ! i) k) \<longrightarrow>
      (\<exists>ls. i \<in> set ls \<and> carregar_dados ns (Inr df) = Inl (ValueError ls)))
   \<and> (carregar_dados ns (Inr df) = Inr df' \<and> i < length (rows df) \<and> k \<in> set colunas_criticas
        \<longrightarrow>
      length (rows df') = length (rows df)
      \<and> \<not> isna (cell_at (columns df') (rows df' ! i) k)
      \<and> cell_at (columns df') (rows df' ! i) k = cell_at (columns df) (rows df ! i) k)
   \<and> (normalizar_cabecalhos u (cabecalhos sh) = Inr N
        \<and> c2 \<in> set colunas_obrigatorias \<and> c2 \<notin> set N \<longrightarrow>
      (\<exists>c'. c' \<in> set colunas_obrigatorias \<and> c' \<notin> set N
         \<and> carregar_dados_leiden u p (Inr sh) = Inl (KeyError c')))
   \<and> (normalizar_cabecalhos u (cabecalhos sh) = Inr N \<and> distinct N
        \<and> wf_dataframe \<lparr>columns = N, rows = linhas sh\<rparr>
        \<and> set colunas_obrigatorias \<subseteq> set N
        \<and> j < length (linhas sh)
        \<and> isna (cell_at N (linhas sh ! j) L_RENDA) \<longrightarrow>
      (\<exists>dl'. carregar_dados_leiden u p (Inr sh) = Inr dl'
         \<and> (\<exists>r' \<in> set (rows dl').
               cell_at (columns dl') r' L_RENDA = Num 0
               \<and> cell_at (columns dl') r' L_ID = cell_at N (linhas sh ! j) L_ID)))"
  using carregar_dados_falta_coluna [of c df ns]
    carregar_dados_valor_ausente [of df i k ns]
    carregar_dados_sucesso [of ns df df' i k]
    carregar_dados_leiden_falta_coluna [of u sh N c2 p]
    carregar_dados_leiden_valor_ausente [of u sh N j p]
  by blast

lemma fastgreedy_exemplos:
  "verificar_colunas colunas (columns df_sem_coluna) = Inl (KeyError COL_MORADIA)
   \<and> verificar_colunas colunas (columns df_renda_ausente) = Inr ()
   \<and> verificar_colunas colunas (columns df3_raw) = Inr ()
   \<and> linhas_invalidas (preparado num_zero df_renda_ausente) = [1]
   \<and> linhas_invalidas df3_raw = []
   \<and> preparado num_zero df3_raw = df3_raw"
  by code_simp

lemma carregar_exemplos:
  "carregar_dados num_zero (Inr df_sem_coluna) = Inl (KeyError COL_MORADIA)
   \<and> carregar_dados num_zero (Inr df_renda_ausente) = Inl (ValueError [1])
   \<and> carregar_dados num_zero (Inr df3_raw) = Inr df3_raw"
  by (simp add: carregar_dados_preparado bind_err_def fastgreedy_exemplos)

lemma carregar_leiden_sem_coluna:
  "carregar_dados_leiden sem_acentos nao_numero (Inr planilha_sem_coluna)
     = Inl (KeyError L_PROCEDENCIA)"
  by code_simp

lemma hipoteses_fastgreedy:
  "COL_MORADIA \<in> set colunas \<and> COL_MORADIA \<notin> set (columns df_sem_coluna)
   \<and> set colunas \<subseteq> set (columns df_renda_ausente) \<and> 1 < length (rows df_renda_ausente)
   \<and> COL_RENDA \<in> set colunas_criticas
   \<and> isna (cell_at (columns df_renda_ausente) (rows df_renda_ausente ! 1) COL_RENDA)
   \<and> 1 < length (rows df3_raw)
   \<and> cell_at (columns df3_raw) (rows df3_raw ! 1) COL_RENDA = Num 1000"
  by code_simp

lemma hipoteses_leiden:
  "L_PROCEDENCIA \<in> set colunas_obrigatorias \<and> L_PROCEDENCIA \<notin> set [L_ID]"
  by code_simp

theorem carregar_dados_validacao_witness:
  "COL_MORADIA \<in> set colunas \<and> COL_MORADIA \<notin> set (columns df_sem_coluna)
   \<and> carregar_dados num_zero (Inr df_sem_coluna) = Inl (KeyError COL_MORADIA)
   \<and> set colunas \<subseteq> set (columns df_renda_ausente) \<and> 1 < length (rows df_renda_ausente)
   \<and> COL_RENDA \<in> set colunas_criticas
   \<and> isna (cell_at (columns df_renda_ausente) (rows df_renda_ausente ! 1) COL_RENDA)
   \<and> carregar_dados num_zero (Inr df_renda_ausente) = Inl (ValueError [1])
   \<and> carregar_dados num_zero (Inr df3_raw) = Inr df3_raw \<and> 1 < length (rows df3_raw)
   \<and> \<not> isna (cell_at (columns df3_raw) (rows df3_raw ! 1) COL_RENDA)
   \<and> normalizar_cabecalhos sem_acentos (cabecalhos planilha_sem_coluna) = Inr [L_ID]
   \<and> L_PROCEDENCIA \<in> set colunas_obrigatorias \<and> L_PROCEDENCIA \<notin> set [L_ID]
   \<and> carregar_dados_leiden sem_acentos nao_numero (Inr planilha_sem_coluna)
       = Inl (KeyError L_PROCEDENCIA)
   \<and> normalizar_cabecalhos sem_acentos (cabecalhos planilha_ausente)
       = Inr (columns df_leiden_ausente)
   \<and> distinct (columns df_leiden_ausente)
   \<and> wf_dataframe \<lparr>columns = columns df_leiden_ausente, rows = linhas planilha_ausente\<rparr>
   \<and> set colunas_obrigatorias \<subseteq> set (columns df_leiden_ausente)
   \<and> 0 < length (linhas planilha_ausente)
   \<and> isna (cell_at (columns df_leiden_ausente) (linhas planilha_ausente ! 0) L_RENDA)
   \<and> carregar_dados_leiden sem_acentos nao_numero (Inr planilha_ausente) = Inr df_leiden_zero
   \<and> cell_at (columns df_leiden_zero) (rows df_leiden_zero ! 0) L_RENDA = Num 0"
proof -
  note t1 = carregar_dados_validacao [where c = COL_MORADIA and df = df_sem_coluna
      and ns = num_zero and i = 0 and k = COL_RENDA and df' = df_sem_coluna
      and ?c2.0 = L_PROCEDENCIA and u = sem_acentos and sh = planilha_sem_coluna
      and N = "[L_ID]" and p = nao_numero and j = 0]
  note t2 = carregar_dados_validacao [where c = COL_MORADIA and df = df_renda_ausente
      and ns = num_zero and i = 1 and k = COL_RENDA and df' = df_renda_ausente
      and ?c2.0 = L_PROCEDENCIA and u = sem_acentos and sh = planilha_ausente
      and N = "columns df_leiden_ausente" and p = nao_numero and j = 0]
  note t3 = carregar_dados_validacao [where c = COL_MORADIA and df = df3_raw
      and ns = num_zero and i = 1 and k = COL_RENDA and df' = df3_raw
      and ?c2.0 = L_PROCEDENCIA and u = sem_acentos and sh = planilha_ausente
      and N = "columns df_leiden_ausente" and p = nao_numero and j = 0]
  from t1 t2 t3 carregar_exemplos carregar_leiden_sem_coluna carregar_leiden_ausente
    hipoteses_fastgreedy hipoteses_leiden celulas_leiden_exemplo cabecalhos_exemplos
    colunas_presentes
  show ?thesis by (simp add: isna_def)
qed

end
